theory Spec2Isabelle
  imports Complex_Main "HOL-Library.Stream"
begin

section \<open>FossenEnv: a multi-vessel encounter simulator\<close>

text \<open>
  A shallow embedding of \<^verbatim>\<open>src/tud_rl/envs/FossenEnv.py\<close> (class FossenEnv).
  Python floats are modelled as real numbers: rounding, infinities and NaN are not
  part of the model, and every statement below is about exact arithmetic.
\<close>

subsection \<open>Angle and distance helpers (module FossenFnc)\<close>

text \<open>Modelled from the spec: \<^verbatim>\<open>dtr\<close> of module FossenFnc, which is not among the
  sources. The spec states every angular threshold in degrees against angles kept in
  radians; \<^verbatim>\<open>dtr\<close> is the degree-to-radian conversion.\<close>

definition dtr :: "real \<Rightarrow> real" where
  "dtr angle = angle * pi / 180"

text \<open>Modelled from the spec: \<^verbatim>\<open>rtd\<close> of module FossenFnc, which is not among the
  sources: the radian-to-degree conversion.\<close>

definition rtd :: "real \<Rightarrow> real" where
  "rtd angle = angle * 180 / pi"

text \<open>Modelled from the spec: \<^verbatim>\<open>angle_to_2pi\<close> of module FossenFnc, which is not among
  the sources. Spec 4.2: an angle "wrapped to [0, 2pi)".\<close>

definition angle_to_2pi :: "real \<Rightarrow> real" where
  "angle_to_2pi angle = angle - 2 * pi * of_int \<lfloor>angle / (2 * pi)\<rfloor>"

text \<open>Modelled from the spec: \<^verbatim>\<open>angle_to_pi\<close> of module FossenFnc, which is not among
  the sources. Spec 4.2: an angle "wrapped to (-pi, pi]".\<close>

definition angle_to_pi :: "real \<Rightarrow> real" where
  "angle_to_pi angle =
     (let a = angle_to_2pi angle in if a \<le> pi then a else a - 2 * pi)"

text \<open>Modelled from the spec: \<^verbatim>\<open>head_inter\<close> of module FossenFnc, which is not among the
  sources. Spec 4.2: the heading-intersection angle is the "difference of absolute
  headings, wrapped to [0, 2pi)"; the spawn code of \<^verbatim>\<open>_get_TS\<close> fixes the orientation
  (target heading = intersection angle + own heading).\<close>

definition head_inter :: "real \<Rightarrow> real \<Rightarrow> real" where
  "head_inter head_OS head_TS = angle_to_2pi (head_TS - head_OS)"

text \<open>Modelled from the spec: \<^verbatim>\<open>ED\<close> of module FossenFnc, which is not among the sources:
  the Euclidean distance of two points (spec 4.4 writes \<^verbatim>\<open>ED\<close> and its square); the
  flag \<^verbatim>\<open>sqrt\<close> (default True) selects the distance or the squared distance.\<close>

definition ED :: "real \<Rightarrow> real \<Rightarrow> real \<Rightarrow> real \<Rightarrow> bool \<Rightarrow> real" where
  "ED N0 E0 N1 E1 sqrt_flag =
     (let d_sq = (N0 - N1)\<^sup>2 + (E0 - E1)\<^sup>2
      in if sqrt_flag then sqrt d_sq else d_sq)"

text \<open>Modelled from the spec: \<^verbatim>\<open>bng_abs\<close> of module FossenFnc, which is not among the
  sources. Glossary: the absolute bearing is the angle from one vessel to a point in the
  world frame; headings are measured clockwise from north (a vessel advances by
  \<^verbatim>\<open>V * cos(chi)\<close> in N and \<^verbatim>\<open>V * sin(chi)\<close> in E) and lie in [0, 2pi). The spec
  says nothing about coinciding points; the model returns 0 there.\<close>

definition bng_abs :: "real \<Rightarrow> real \<Rightarrow> real \<Rightarrow> real \<Rightarrow> real" where
  "bng_abs N0 E0 N1 E1 =
     (let dN = N1 - N0; dE = E1 - E0
      in if 0 < dN then angle_to_2pi (arctan (dE / dN))
         else if dN < 0 then arctan (dE / dN) + pi
         else if 0 < dE then pi / 2
         else if dE < 0 then 3 * pi / 2
         else 0)"

text \<open>Modelled from the spec: \<^verbatim>\<open>bng_rel\<close> of module FossenFnc, which is not among the
  sources. Spec 4.2: the bearing from a vessel to a point "relative to" the vessel's
  heading, wrapped to [0, 2pi).\<close>

definition bng_rel :: "real \<Rightarrow> real \<Rightarrow> real \<Rightarrow> real \<Rightarrow> real \<Rightarrow> real" where
  "bng_rel N0 E0 N1 E1 head0 = angle_to_2pi (bng_abs N0 E0 N1 E1 - head0)"

subsection \<open>Vessels (class CyberShipII) and the external collaborators\<close>

text \<open>
  The attributes of a CyberShipII that FossenEnv reads and writes: the pose
  \<^verbatim>\<open>eta = (N, E, psi)\<close>, the body-frame velocity \<^verbatim>\<open>nu = (u, v, r)\<close>, the forward
  thrust \<^verbatim>\<open>tau_u\<close>, the hull length (\<^verbatim>\<open>length\<close>) and the vessel's own copy of the map
  extents (\<^verbatim>\<open>N_max\<close>, \<^verbatim>\<open>E_max\<close>).
\<close>

record vessel =
  eta_N :: real
  eta_E :: real
  eta_psi :: real
  nu_u :: real
  nu_v :: real
  nu_r :: real
  tau_u :: real
  length_v :: real
  N_max_v :: real
  E_max_v :: real

text \<open>
  The methods of class CyberShipII (module FossenCS2, not among the sources) and the
  function \<^verbatim>\<open>tcpa\<close> of FossenFnc are taken as parameters: the environment only calls
  them. \<^verbatim>\<open>ship_length\<close> is the hull length every constructed vessel gets.
\<close>

record collab =
  ship_length :: real
  get_V :: "vessel \<Rightarrow> real"
  get_course :: "vessel \<Rightarrow> real"
  is_off_map :: "vessel \<Rightarrow> bool"
  u_from_tau_u :: "vessel \<Rightarrow> real \<Rightarrow> real"
  tau_u_from_u :: "vessel \<Rightarrow> real \<Rightarrow> real"
  set_tau :: "vessel \<Rightarrow> vessel"
  control :: "vessel \<Rightarrow> nat \<Rightarrow> vessel"
  upd_dynamics :: "vessel \<Rightarrow> vessel"
  tcpa :: "real \<Rightarrow> real \<Rightarrow> real \<Rightarrow> real \<Rightarrow> real \<Rightarrow> real \<Rightarrow> real \<Rightarrow> real \<Rightarrow> real"

subsection \<open>The ship domain\<close>

definition rel_speed :: "collab \<Rightarrow> vessel \<Rightarrow> vessel \<Rightarrow> real" where
  "rel_speed X os ts =
     (let VOS = get_V X os; VTS = get_V X ts;
          chiOS = get_course X os; chiTS = get_course X ts;
          vxOS = VOS * sin chiOS; vyOS = VOS * cos chiOS;
          vxTS = VTS * sin chiTS; vyTS = VTS * cos chiTS
      in sqrt ((vyTS - vyOS)\<^sup>2 + (vxTS - vxOS)\<^sup>2))"

definition get_ship_domain :: "collab \<Rightarrow> vessel \<Rightarrow> vessel \<Rightarrow> real" where
  "get_ship_domain X os ts =
     (let VOS = get_V X os;
          VR = rel_speed X os ts;
          V = max VOS VR
      in length_v os * V powr 1.26 + 30 * V)"

subsection \<open>The COLREG classifier\<close>

text \<open>The four conditions of \<^verbatim>\<open>_get_COLREG_situation\<close>, in the source's words.\<close>

definition cond_head_on :: "real \<Rightarrow> real \<Rightarrow> bool" where
  "cond_head_on bng_OS C_T \<longleftrightarrow>
     - 5 \<le> rtd (angle_to_pi bng_OS) \<and> rtd (angle_to_pi bng_OS) \<le> 5 \<and>
     175 \<le> rtd C_T \<and> rtd C_T \<le> 185"

definition cond_starboard :: "real \<Rightarrow> real \<Rightarrow> bool" where
  "cond_starboard bng_OS C_T \<longleftrightarrow>
     5 \<le> rtd bng_OS \<and> rtd bng_OS \<le> 112.5 \<and> 185 \<le> rtd C_T \<and> rtd C_T \<le> 292.5"

definition cond_portside :: "real \<Rightarrow> real \<Rightarrow> bool" where
  "cond_portside bng_OS C_T \<longleftrightarrow>
     247.5 \<le> rtd bng_OS \<and> rtd bng_OS \<le> 355 \<and> 67.5 \<le> rtd C_T \<and> rtd C_T \<le> 175"

definition cond_overtaking_angles :: "real \<Rightarrow> real \<Rightarrow> bool" where
  "cond_overtaking_angles bng_TS C_T \<longleftrightarrow>
     112.5 \<le> rtd bng_TS \<and> rtd bng_TS \<le> 247.5 \<and>
     - 67.5 \<le> rtd (angle_to_pi C_T) \<and> rtd (angle_to_pi C_T) \<le> 67.5"

definition cond_overtaking :: "real \<Rightarrow> real \<Rightarrow> real \<Rightarrow> real \<Rightarrow> real \<Rightarrow> bool" where
  "cond_overtaking bng_TS C_T V_OS C_T_side V_TS \<longleftrightarrow>
     cond_overtaking_angles bng_TS C_T \<and> V_OS * cos C_T_side > V_TS"

text \<open>The parameter \<^verbatim>\<open>distance\<close> defaults to \<^verbatim>\<open>np.inf\<close>: \<open>None\<close> here.\<close>

definition get_COLREG_situation :: "collab \<Rightarrow> vessel \<Rightarrow> vessel \<Rightarrow> real option \<Rightarrow> nat" where
  "get_COLREG_situation X os ts distance =
     (let NOS = eta_N os; EOS = eta_E os; psi_OS = eta_psi os;
          NTS = eta_N ts; ETS = eta_E ts; psi_TS = eta_psi ts
      in if (case distance of None \<Rightarrow> False | Some d \<Rightarrow> ED NOS EOS NTS ETS True > d)
         then 0
         else
           let bng_OS = bng_rel NOS EOS NTS ETS psi_OS;
               bng_TS = bng_rel NTS ETS NOS EOS psi_TS;
               V_OS = get_V X os;
               V_TS = get_V X ts;
               C_T = head_inter psi_OS psi_TS;
               C_T_side = head_inter (get_course X os) (get_course X ts)
           in if cond_head_on bng_OS C_T then 1
              else if cond_starboard bng_OS C_T then 2
              else if cond_portside bng_OS C_T then 3
              else if cond_overtaking bng_TS C_T V_OS C_T_side V_TS then 4
              else 0)"


subsection \<open>Random sources\<close>

text \<open>
  The environment draws from two global generators: numpy's (\<^verbatim>\<open>np.random.uniform\<close>)
  and Python's (\<^verbatim>\<open>random.choice\<close>). Each is a stream of raw samples that a draw
  consumes: \<^verbatim>\<open>np.random.uniform(low, high)\<close> returns \<^verbatim>\<open>low + (high - low) * x\<close> for the
  next sample \<open>x\<close> of the unit interval, \<^verbatim>\<open>random.choice(seq)\<close> indexes the sequence
  with the next raw sample.
\<close>

record rng =
  np_random :: "real stream"
  py_random :: "nat stream"

definition uniform :: "real \<Rightarrow> real \<Rightarrow> rng \<Rightarrow> real \<times> rng" where
  "uniform low high g =
     (low + (high - low) * shd (np_random g), g\<lparr>np_random := stl (np_random g)\<rparr>)"

definition random_choice :: "nat list \<Rightarrow> rng \<Rightarrow> nat \<times> rng" where
  "random_choice xs g =
     (xs ! (shd (py_random g) mod length xs), g\<lparr>py_random := stl (py_random g)\<rparr>)"

subsection \<open>The environment\<close>

datatype error = AssertionError | UnboundLocalError | ValueError | IndexError

text \<open>
  The attributes of a FossenEnv that the simulation reads and writes. The observation
  vector (\<^verbatim>\<open>self.state\<close>, assembled by \<^verbatim>\<open>_set_state\<close>, which changes no other
  attribute) and the plotting attributes are left out.
\<close>

record env =
  delta_t :: real
  N_max :: real
  E_max :: real
  N_TSs :: nat
  safety_dist :: real
  TCPA_crit :: real
  cnt_approach :: string
  goal_reach_dist :: real
  max_episode_steps :: real
  r_coll_sigma :: real
  step_cnt :: nat
  sim_t :: real
  goal_N :: real
  goal_E :: real
  OS :: vessel
  TSs :: "vessel list"
  TS_COLREGs :: "nat list"
  TS_COLREGs_old :: "nat list"
  respawn_flags :: "bool list"
  r :: real
  r_dist :: real
  r_head :: real
  r_coll :: real
  r_COLREG :: real
  r_map :: real

text \<open>Modelled from the spec: the constructor of class CyberShipII (module FossenCS2,
  not among the sources). Spec 3: a vessel holds its pose, its velocity, its length and
  its thrust parameters; the constructor stores the initial pose, velocity, map extents
  and forward thrust it is given. The time step and the control approach it also
  receives are used by the vessel's own dynamics only.\<close>

definition CyberShipII ::
  "collab \<Rightarrow> real \<Rightarrow> real \<Rightarrow> real \<Rightarrow> real \<Rightarrow> real \<Rightarrow> real \<Rightarrow> real \<Rightarrow> real \<Rightarrow> real \<Rightarrow> string \<Rightarrow> real \<Rightarrow> vessel" where
  "CyberShipII X N_init E_init psi_init u_init v_init r_init dt Nmax Emax cnt tau_u_init =
     \<lparr>eta_N = N_init, eta_E = E_init, eta_psi = psi_init,
      nu_u = u_init, nu_v = v_init, nu_r = r_init,
      tau_u = tau_u_init, length_v = ship_length X, N_max_v = Nmax, E_max_v = Emax\<rparr>"

subsection \<open>Spawning a target ship: \<^verbatim>\<open>_get_TS\<close>\<close>

text \<open>Front mode: the relative bearing and the intersection angle sampled for a
  head-on (1), starboard crossing (2) or portside crossing (3).\<close>

definition front_sample :: "nat \<Rightarrow> rng \<Rightarrow> real \<times> real \<times> rng" where
  "front_sample COLREG_s g =
     (if COLREG_s = 1 then
        (let (x, g1) = uniform (- 5) 5 g; (y, g2) = uniform 175 185 g1
         in (angle_to_2pi (dtr x), dtr y, g2))
      else if COLREG_s = 2 then
        (let (x, g1) = uniform 5 112.5 g; (y, g2) = uniform 185 292.5 g1
         in (dtr x, dtr y, g2))
      else
        (let (x, g1) = uniform 247.5 355 g; (y, g2) = uniform 67.5 175 g1
         in (dtr x, dtr y, g2)))"

definition spawn_front :: "collab \<Rightarrow> env \<Rightarrow> vessel \<Rightarrow> nat \<Rightarrow> rng \<Rightarrow> error + vessel \<times> rng" where
  "spawn_front X s ts COLREG_s g =
     (let N0 = eta_N (OS s); E0 = eta_E (OS s); head0 = eta_psi (OS s);
          chiOS = get_course X (OS s); VOS = get_V X (OS s);
          DCPA_s = 0;
          E_OS_tcpa0 = E0 + VOS * sin chiOS * TCPA_crit s;
          N_OS_tcpa0 = N0 + VOS * cos chiOS * TCPA_crit s
      in if COLREG_s \<in> {1, 2, 3} then
           (let (bng_rel_s, C_TS_s, g2) = front_sample COLREG_s g;
                bng_abs_s = angle_to_2pi (bng_rel_s + head0);
                head_TS_s = angle_to_2pi (C_TS_s + head0);
                E_TS_tcpa0 = E_OS_tcpa0 + DCPA_s * sin bng_abs_s;
                N_TS_tcpa0 = N_OS_tcpa0 + DCPA_s * cos bng_abs_s;
                VTS = nu_u ts;
                E_TS = E_TS_tcpa0 - VTS * sin head_TS_s * TCPA_crit s;
                N_TS = N_TS_tcpa0 - VTS * cos head_TS_s * TCPA_crit s
            in Inr (ts\<lparr>eta_N := N_TS, eta_E := E_TS, eta_psi := head_TS_s\<rparr>, g2))
         else if COLREG_s = 4 then
           (let (c, g1) = uniform (- 67.5) 67.5 g;
                C_TS_s = angle_to_2pi (dtr c);
                head_TS_s = angle_to_2pi (C_TS_s + head0);
                (b, g2) = uniform (- 67.5) 67.5 g1;
                bng_rel_s = angle_to_2pi (dtr b - head0 + head_TS_s);
                bng_abs_s = angle_to_2pi (bng_rel_s + head0);
                E_TS_tcpa0 = E_OS_tcpa0 + DCPA_s * sin bng_abs_s;
                N_TS_tcpa0 = N_OS_tcpa0 + DCPA_s * cos bng_abs_s;
                C_T_side = head_inter (get_course X (OS s)) (get_course X ts);
                VOS = get_V X (OS s);
                (VTS, g3) = uniform 0 (VOS * cos C_T_side) g2;
                ts1 = ts\<lparr>nu_u := VTS\<rparr>;
                ts2 = ts1\<lparr>tau_u := tau_u_from_u X ts1 VTS\<rparr>;
                ts3 = set_tau X ts2;
                E_TS = E_TS_tcpa0 - VTS * sin head_TS_s * TCPA_crit s;
                N_TS = N_TS_tcpa0 - VTS * cos head_TS_s * TCPA_crit s
            in Inr (ts3\<lparr>eta_N := N_TS, eta_E := E_TS, eta_psi := head_TS_s\<rparr>, g3))
         else Inl UnboundLocalError)"

text \<open>Line mode: the hit point, for a sampled time \<^verbatim>\<open>t_hit\<close>.\<close>

definition line_hit_point :: "collab \<Rightarrow> env \<Rightarrow> real \<Rightarrow> real \<times> real" where
  "line_hit_point X s t_hit =
     (let N0 = eta_N (OS s); E0 = eta_E (OS s);
          chiOS = get_course X (OS s); VOS = get_V X (OS s);
          bng_abs_goal = bng_abs N0 E0 (goal_N s) (goal_E s);
          vxOS = VOS * sin chiOS;
          vyOS = VOS * cos chiOS;
          vxR_unit = 1 * sin bng_abs_goal;
          vyR_unit = 1 * cos bng_abs_goal;
          vR = (vxOS * vxR_unit + vyOS * vyR_unit) / 1;
          VR_goal_x = vR * sin bng_abs_goal;
          VR_goal_y = vR * cos bng_abs_goal;
          E_hit = E0 + \<bar>VR_goal_x\<bar> * t_hit;
          N_hit = N0 + \<bar>VR_goal_y\<bar> * t_hit
      in (N_hit, E_hit))"

text \<open>Line mode: the intersection angle sampled for a head-on (1), starboard crossing
  (2) or portside crossing (3).\<close>

definition line_sample :: "nat \<Rightarrow> rng \<Rightarrow> real \<times> rng" where
  "line_sample COLREG_s g =
     (if COLREG_s = 1 then (let (y, g1) = uniform 175 185 g in (dtr y, g1))
      else if COLREG_s = 2 then (let (y, g1) = uniform 185 292.5 g in (dtr y, g1))
      else (let (y, g1) = uniform 67.5 175 g in (dtr y, g1)))"

definition spawn_line :: "collab \<Rightarrow> env \<Rightarrow> vessel \<Rightarrow> nat \<Rightarrow> rng \<Rightarrow> error + vessel \<times> rng" where
  "spawn_line X s ts COLREG_s g =
     (let N0 = eta_N (OS s); E0 = eta_E (OS s);
          bng_abs_goal = bng_abs N0 E0 (goal_N s) (goal_E s);
          (t_hit, g1) = uniform (TCPA_crit s / 2) (TCPA_crit s) g;
          (N_hit, E_hit) = line_hit_point X s t_hit
      in if COLREG_s \<in> {1, 2, 3} then
           (let (C_TS_s, g2) = line_sample COLREG_s g1;
                head_TS_s = angle_to_2pi (C_TS_s + bng_abs_goal);
                VTS = nu_u ts;
                E_TS = E_hit - VTS * sin head_TS_s * t_hit;
                N_TS = N_hit - VTS * cos head_TS_s * t_hit
            in Inr (ts\<lparr>eta_N := N_TS, eta_E := E_TS, eta_psi := head_TS_s\<rparr>, g2))
         else Inl UnboundLocalError)"

text \<open>The randomly placed vessel that \<^verbatim>\<open>_get_TS\<close> constructs first.\<close>

definition init_TS :: "collab \<Rightarrow> env \<Rightarrow> rng \<Rightarrow> vessel \<times> rng" where
  "init_TS X s g =
     (let (N_init, g1) = uniform (N_max s / 5) (N_max s) g;
          (E_init, g2) = uniform (E_max s / 5) (E_max s) g1;
          (psi_init, g3) = uniform 0 (2 * pi) g2;
          (tau_u_init, g4) = uniform 0 5 g3
      in (CyberShipII X N_init E_init psi_init 0 0 0 (delta_t s) (N_max s) (E_max s)
            (cnt_approach s) tau_u_init, g4))"

definition get_TS :: "collab \<Rightarrow> env \<Rightarrow> string \<Rightarrow> rng \<Rightarrow> error + vessel \<times> rng" where
  "get_TS X s spawn_mode g =
     (if spawn_mode \<noteq> ''line'' \<and> spawn_mode \<noteq> ''front'' then Inl AssertionError
      else
        let (ts, g4) = init_TS X s g
        in if cnt_approach s \<noteq> ''tau'' then Inr (ts, g4)
           else
             let ts1 = ts\<lparr>nu_u := u_from_tau_u X ts (tau_u ts)\<rparr>;
                 (COLREG_s, g5) = random_choice [0, 1, 2, 3, 4] g4;
                 COLREG_s = 2
             in if COLREG_s = 0 then Inr (ts1, g5)
                else if spawn_mode = ''front'' then spawn_front X s ts1 COLREG_s g5
                else spawn_line X s ts1 COLREG_s g5)"

subsection \<open>Classification of all targets: \<^verbatim>\<open>_set_COLREGs\<close>\<close>

fun COLREGs_loop :: "collab \<Rightarrow> vessel \<Rightarrow> vessel list \<Rightarrow> nat list \<Rightarrow> nat list" where
  "COLREGs_loop X os [] acc = acc"
| "COLREGs_loop X os (ts # tss) acc =
     COLREGs_loop X os tss (acc @ [get_COLREG_situation X os ts None])"

definition set_COLREGs :: "collab \<Rightarrow> env \<Rightarrow> env" where
  "set_COLREGs X s =
     (let s1 = s\<lparr>TS_COLREGs_old := TS_COLREGs s\<rparr>
      in s1\<lparr>TS_COLREGs := COLREGs_loop X (OS s1) (TSs s1) []\<rparr>)"

subsection \<open>The reward: \<^verbatim>\<open>_calculate_reward\<close>\<close>

text \<open>The collision loop: \<open>acc\<close> is the running value of \<^verbatim>\<open>r_coll\<close>.\<close>

fun r_coll_loop :: "env \<Rightarrow> vessel list \<Rightarrow> real \<Rightarrow> real" where
  "r_coll_loop s [] acc = acc"
| "r_coll_loop s (ts # tss) acc =
     (let EDsq_TS = ED (eta_N (OS s)) (eta_E (OS s)) (eta_N ts) (eta_E ts) False;
          acc1 = acc - exp (- 0.5 * EDsq_TS / (r_coll_sigma s)\<^sup>2);
          acc2 = acc1 - (if EDsq_TS < (safety_dist s)\<^sup>2 then 10 else 0)
      in r_coll_loop s tss acc2)"

text \<open>The body of the COLREG loop for the target at index \<^verbatim>\<open>TS_idx\<close>: what is
  subtracted from \<^verbatim>\<open>r_COLREG\<close>. Reading a list beyond its end raises IndexError.\<close>

definition rule_penalty :: "env \<Rightarrow> nat \<Rightarrow> vessel \<Rightarrow> error + real" where
  "rule_penalty s TS_idx ts =
     (if length (respawn_flags s) \<le> TS_idx then Inl IndexError
      else if \<not> respawn_flags s ! TS_idx then
        (if length (TS_COLREGs s) \<le> TS_idx \<or> length (TS_COLREGs_old s) \<le> TS_idx
         then Inl IndexError
         else if TS_COLREGs s ! TS_idx \<noteq> TS_COLREGs_old s ! TS_idx then
           (if TS_COLREGs_old s ! TS_idx \<in> {1, 2, 3} then
              (if 0 \<le> bng_rel (eta_N (OS s)) (eta_E (OS s)) (eta_N ts) (eta_E ts)
                          (eta_psi (OS s)) \<and>
                  bng_rel (eta_N (OS s)) (eta_E (OS s)) (eta_N ts) (eta_E ts)
                          (eta_psi (OS s)) \<le> pi
               then Inr 10 else Inr 0)
            else Inr 0)
         else Inr 0)
      else Inr 0)"

fun r_COLREG_loop :: "env \<Rightarrow> nat \<Rightarrow> vessel list \<Rightarrow> real \<Rightarrow> error + real" where
  "r_COLREG_loop s TS_idx [] acc = Inr acc"
| "r_COLREG_loop s TS_idx (ts # tss) acc =
     (case rule_penalty s TS_idx ts of
        Inl e \<Rightarrow> Inl e
      | Inr p \<Rightarrow> r_COLREG_loop s (Suc TS_idx) tss (acc - p))"

definition calculate_reward ::
  "collab \<Rightarrow> env \<Rightarrow> real \<Rightarrow> real \<Rightarrow> real \<Rightarrow> real \<Rightarrow> real \<Rightarrow> error + env" where
  "calculate_reward X s w_dist w_head w_coll w_COLREG w_map =
     (let N0 = eta_N (OS s); E0 = eta_E (OS s); head0 = eta_psi (OS s);
          OS_goal_ED = ED N0 E0 (goal_N s) (goal_E s) True;
          r_dist1 = - OS_goal_ED / E_max s;
          r_head1 = - \<bar>angle_to_pi (bng_rel N0 E0 (goal_N s) (goal_E s) head0)\<bar> / pi;
          r_coll1 = r_coll_loop s (TSs s) 0
      in case r_COLREG_loop s 0 (TSs s) 0 of
           Inl e \<Rightarrow> Inl e
         | Inr r_COLREG1 \<Rightarrow>
             (let r_map1 = (if is_off_map X (OS s) then - 10 else 0)
              in Inr (s\<lparr>r_dist := r_dist1, r_head := r_head1, r_coll := r_coll1,
                         r_COLREG := r_COLREG1, r_map := r_map1,
                         r := w_dist * r_dist1 + w_head * r_head1 + w_coll * r_coll1
                              + w_COLREG * r_COLREG1 + w_map * r_map1\<rparr>)))"

subsection \<open>Termination: \<^verbatim>\<open>_done\<close>\<close>

definition done_env :: "env \<Rightarrow> bool" where
  "done_env s =
     (let OS_goal_ED = ED (eta_N (OS s)) (eta_E (OS s)) (goal_N s) (goal_E s) True
      in if OS_goal_ED \<le> goal_reach_dist s then True
         else if max_episode_steps s \<le> real (step_cnt s) then True
         else False)"

subsection \<open>Leaving the map and respawning\<close>

definition clip :: "real \<Rightarrow> real \<Rightarrow> real \<Rightarrow> real" where
  "clip x a_min a_max = min a_max (max x a_min)"

definition handle_map_leaving ::
  "collab \<Rightarrow> env \<Rightarrow> vessel \<Rightarrow> bool \<Rightarrow> bool \<Rightarrow> bool \<Rightarrow> rng \<Rightarrow> error + (vessel \<times> bool) \<times> rng" where
  "handle_map_leaving X s CS respawn mirrow clip_flag g =
     (if is_off_map X CS then
        (if respawn then
           (case get_TS X s ''line'' g of
              Inl e \<Rightarrow> Inl e
            | Inr (ts, g1) \<Rightarrow> Inr ((ts, True), g1))
         else if mirrow then
           (let psi = eta_psi CS
            in if eta_E CS \<le> 0 \<or> E_max_v CS \<le> eta_E CS
               then Inr ((CS\<lparr>eta_psi := 2 * pi - psi\<rparr>, False), g)
               else Inr ((CS\<lparr>eta_psi := pi - psi\<rparr>, False), g))
         else if clip_flag then
           Inr ((CS\<lparr>eta_N := clip (eta_N CS) 0 (N_max_v CS),
                     eta_E := clip (eta_E CS) 0 (E_max_v CS)\<rparr>, False), g)
         else Inr ((CS, False), g))
      else Inr ((CS, False), g))"

definition handle_respawn ::
  "collab \<Rightarrow> env \<Rightarrow> vessel \<Rightarrow> rng \<Rightarrow> error + (vessel \<times> bool) \<times> rng" where
  "handle_respawn X s ts g =
     (let TCPA_TS = tcpa X (eta_N (OS s)) (eta_E (OS s)) (eta_N ts) (eta_E ts)
                      (get_course X (OS s)) (get_course X ts) (get_V X (OS s)) (get_V X ts)
      in if TCPA_TS < - 10 then
           (case get_TS X s ''line'' g of
              Inl e \<Rightarrow> Inl e
            | Inr (ts1, g1) \<Rightarrow> Inr ((ts1, True), g1))
         else Inr ((ts, False), g))"

text \<open>The two list comprehensions of \<^verbatim>\<open>step\<close> over the target ships.\<close>

fun map_leaving_pass ::
  "collab \<Rightarrow> env \<Rightarrow> vessel list \<Rightarrow> rng \<Rightarrow> error + (vessel \<times> bool) list \<times> rng" where
  "map_leaving_pass X s [] g = Inr ([], g)"
| "map_leaving_pass X s (ts # tss) g =
     (case handle_map_leaving X s ts True False False g of
        Inl e \<Rightarrow> Inl e
      | Inr (p, g1) \<Rightarrow>
          (case map_leaving_pass X s tss g1 of
             Inl e \<Rightarrow> Inl e
           | Inr (ps, g2) \<Rightarrow> Inr (p # ps, g2)))"

fun respawn_pass ::
  "collab \<Rightarrow> env \<Rightarrow> vessel list \<Rightarrow> rng \<Rightarrow> error + (vessel \<times> bool) list \<times> rng" where
  "respawn_pass X s [] g = Inr ([], g)"
| "respawn_pass X s (ts # tss) g =
     (case handle_respawn X s ts g of
        Inl e \<Rightarrow> Inl e
      | Inr (p, g1) \<Rightarrow>
          (case respawn_pass X s tss g1 of
             Inl e \<Rightarrow> Inl e
           | Inr (ps, g2) \<Rightarrow> Inr (p # ps, g2)))"

text \<open>Unpacking \<^verbatim>\<open>list(zip(*pairs))\<close> into two names raises ValueError when
  \<^verbatim>\<open>pairs\<close> is empty.\<close>

definition unzip_pairs :: "(vessel \<times> bool) list \<Rightarrow> error + vessel list \<times> bool list" where
  "unzip_pairs ps = (if ps = [] then Inl ValueError else Inr (map fst ps, map snd ps))"

definition respawn_phase :: "collab \<Rightarrow> env \<Rightarrow> rng \<Rightarrow> error + env \<times> rng" where
  "respawn_phase X s g =
     (if 0 < N_TSs s then
        (case map_leaving_pass X s (TSs s) g of
           Inl e \<Rightarrow> Inl e
         | Inr (ps, g1) \<Rightarrow>
             (case unzip_pairs ps of
                Inl e \<Rightarrow> Inl e
              | Inr (tss1, flags1) \<Rightarrow>
                  (let s1 = s\<lparr>TSs := tss1, respawn_flags := flags1\<rparr>
                   in case respawn_pass X s1 (TSs s1) g1 of
                        Inl e \<Rightarrow> Inl e
                      | Inr (qs, g2) \<Rightarrow>
                          (case unzip_pairs qs of
                             Inl e \<Rightarrow> Inl e
                           | Inr (tss2, flags2) \<Rightarrow>
                               Inr (s1\<lparr>TSs := tss2, respawn_flags := flags2\<rparr>, g2)))))
      else Inr (s, g))"

subsection \<open>One tick: \<^verbatim>\<open>step\<close>\<close>

text \<open>The own ship after the control action, the dynamics update and the clipping to
  the map.\<close>

definition OS_after :: "collab \<Rightarrow> env \<Rightarrow> nat \<Rightarrow> vessel" where
  "OS_after X s a =
     (let os1 = control X (OS s) a;
          os2 = set_tau X os1;
          os3 = upd_dynamics X os2
      in if is_off_map X os3
         then os3\<lparr>eta_N := clip (eta_N os3) 0 (N_max_v os3),
                  eta_E := clip (eta_E os3) 0 (E_max_v os3)\<rparr>
         else os3)"

text \<open>\<^verbatim>\<open>step\<close> returns the reward, the flag \<^verbatim>\<open>d\<close>, the new environment and the
  random sources as the tick leaves them.\<close>

definition step :: "collab \<Rightarrow> env \<Rightarrow> nat \<Rightarrow> rng \<Rightarrow> error + (real \<times> bool) \<times> env \<times> rng" where
  "step X s a g =
     (let os1 = control X (OS s) a;
          os2 = set_tau X os1;
          os3 = upd_dynamics X os2;
          s1 = s\<lparr>OS := os3\<rparr>
      in case handle_map_leaving X s1 (OS s1) False False True g of
           Inl e \<Rightarrow> Inl e
         | Inr ((os4, flag), g1) \<Rightarrow>
             (let s2 = s1\<lparr>OS := os4\<rparr>;
                  s3 = s2\<lparr>TSs := map (upd_dynamics X) (TSs s2)\<rparr>
              in case respawn_phase X s3 g1 of
                   Inl e \<Rightarrow> Inl e
                 | Inr (s4, g2) \<Rightarrow>
                     (let s5 = set_COLREGs X s4
                      in case calculate_reward X s5 1 1 1 1 1 of
                           Inl e \<Rightarrow> Inl e
                         | Inr s6 \<Rightarrow>
                             (let d = done_env s6;
                                  s7 = s6\<lparr>step_cnt := step_cnt s6 + 1,
                                           sim_t := sim_t s6 + delta_t s6\<rparr>
                              in Inr ((r s7, d), s7, g2)))))"

subsection \<open>The classification as the specification words it\<close>

text \<open>
  The four encounter classes of spec 4.2, with the thresholds converted to radians, and
  the classification in the stated priority order. These follow the specification, not
  the source; the two are compared below.
\<close>

definition spec_head_on :: "real \<Rightarrow> real \<Rightarrow> bool" where
  "spec_head_on bng_OS C_T \<longleftrightarrow>
     \<bar>angle_to_pi bng_OS\<bar> \<le> dtr 5 \<and> dtr 175 \<le> C_T \<and> C_T \<le> dtr 185"

definition spec_starboard :: "real \<Rightarrow> real \<Rightarrow> bool" where
  "spec_starboard bng_OS C_T \<longleftrightarrow>
     dtr 5 \<le> bng_OS \<and> bng_OS \<le> dtr 112.5 \<and> dtr 185 \<le> C_T \<and> C_T \<le> dtr 292.5"

definition spec_portside :: "real \<Rightarrow> real \<Rightarrow> bool" where
  "spec_portside bng_OS C_T \<longleftrightarrow>
     dtr 247.5 \<le> bng_OS \<and> bng_OS \<le> dtr 355 \<and> dtr 67.5 \<le> C_T \<and> C_T \<le> dtr 175"

definition spec_overtaking :: "real \<Rightarrow> real \<Rightarrow> real \<Rightarrow> real \<Rightarrow> real \<Rightarrow> bool" where
  "spec_overtaking bng_TS C_T V_OS C_T_side V_TS \<longleftrightarrow>
     dtr 112.5 \<le> bng_TS \<and> bng_TS \<le> dtr 247.5 \<and>
     dtr (- 67.5) \<le> angle_to_pi C_T \<and> angle_to_pi C_T \<le> dtr 67.5 \<and>
     V_TS < V_OS * cos C_T_side"

definition spec_situation :: "collab \<Rightarrow> vessel \<Rightarrow> vessel \<Rightarrow> nat" where
  "spec_situation X os ts =
     (let bng_OS = bng_rel (eta_N os) (eta_E os) (eta_N ts) (eta_E ts) (eta_psi os);
          bng_TS = bng_rel (eta_N ts) (eta_E ts) (eta_N os) (eta_E os) (eta_psi ts);
          C_T = head_inter (eta_psi os) (eta_psi ts);
          C_T_side = head_inter (get_course X os) (get_course X ts)
      in if spec_head_on bng_OS C_T then 1
         else if spec_starboard bng_OS C_T then 2
         else if spec_portside bng_OS C_T then 3
         else if spec_overtaking bng_TS C_T (get_V X os) C_T_side (get_V X ts) then 4
         else 0)"

subsection \<open>The reward terms as the specification words them\<close>

text \<open>The term of one target in the collision reward of spec 4.4: the Gaussian
  proximity penalty and the hard penalty of 10 inside the safety distance.\<close>

definition spec_coll_term :: "env \<Rightarrow> vessel \<Rightarrow> real" where
  "spec_coll_term s ts =
     - exp (- 0.5 * ED (eta_N (OS s)) (eta_E (OS s)) (eta_N ts) (eta_E ts) False
                  / (r_coll_sigma s)\<^sup>2)
     - (if ED (eta_N (OS s)) (eta_E (OS s)) (eta_N ts) (eta_E ts) False < (safety_dist s)\<^sup>2
        then 10 else 0)"

text \<open>The lists indexed by the position of a target (the respawn flags, the current
  and the previous classes) have an entry for every target.\<close>

definition lists_cover_targets :: "env \<Rightarrow> bool" where
  "lists_cover_targets s \<longleftrightarrow>
     length (TSs s) \<le> length (respawn_flags s) \<and>
     length (TSs s) \<le> length (TS_COLREGs s) \<and>
     length (TSs s) \<le> length (TS_COLREGs_old s)"

text \<open>The targets that the rule-compliance reward penalises: not flagged as just
  respawned, the class differs from the previous one, the previous one is head-on,
  starboard crossing or portside crossing, and the relative bearing from the own ship
  lies in [0, 180] degrees.\<close>

definition spec_penalized :: "env \<Rightarrow> nat \<Rightarrow> vessel \<Rightarrow> bool" where
  "spec_penalized s i ts \<longleftrightarrow>
     \<not> respawn_flags s ! i \<and>
     TS_COLREGs s ! i \<noteq> TS_COLREGs_old s ! i \<and>
     TS_COLREGs_old s ! i \<in> {1, 2, 3} \<and>
     0 \<le> bng_rel (eta_N (OS s)) (eta_E (OS s)) (eta_N ts) (eta_E ts) (eta_psi (OS s)) \<and>
     bng_rel (eta_N (OS s)) (eta_E (OS s)) (eta_N ts) (eta_E ts) (eta_psi (OS s)) \<le> dtr 180"

subsection \<open>Spawning as the specification words it\<close>

text \<open>The target that \<^verbatim>\<open>_get_TS\<close> returns when the control approach is not
  \<^verbatim>\<open>tau\<close>: position, heading and thrust are the first four samples of numpy's
  generator scaled to their ranges, and the vessel is at rest.\<close>

definition spec_random_target :: "collab \<Rightarrow> env \<Rightarrow> rng \<Rightarrow> vessel" where
  "spec_random_target X s g =
     \<lparr>eta_N = N_max s / 5 + (N_max s - N_max s / 5) * (np_random g !! 0),
      eta_E = E_max s / 5 + (E_max s - E_max s / 5) * (np_random g !! 1),
      eta_psi = 2 * pi * (np_random g !! 2),
      nu_u = 0, nu_v = 0, nu_r = 0,
      tau_u = 5 * (np_random g !! 3),
      length_v = ship_length X, N_max_v = N_max s, E_max_v = E_max s\<rparr>"

text \<open>A point \<open>p = (N, E)\<close> lies on the ray that starts at \<open>(N0, E0)\<close> in the
  direction of the bearing \<open>b\<close>.\<close>

definition on_ray :: "real \<Rightarrow> real \<Rightarrow> real \<Rightarrow> real \<times> real \<Rightarrow> bool" where
  "on_ray N0 E0 b p \<longleftrightarrow> (\<exists>d. 0 \<le> d \<and> fst p = N0 + d * cos b \<and> snd p = E0 + d * sin b)"

subsection \<open>A concrete collaborator and concrete states\<close>

text \<open>
  A stand-in for CyberShipII without sway or sideslip, a vessel with a given pose and
  surge speed, and an environment with the settings of \<^verbatim>\<open>FossenEnv.__init__\<close>. They
  serve as the concrete inputs at which the theorems below are instantiated.
\<close>

definition demo_ship :: collab where
  "demo_ship =
     \<lparr>ship_length = 1.255,
      get_V = (\<lambda>cs. sqrt ((nu_u cs)\<^sup>2 + (nu_v cs)\<^sup>2)),
      get_course = (\<lambda>cs. eta_psi cs),
      is_off_map = (\<lambda>cs. eta_N cs \<le> 0 \<or> N_max_v cs \<le> eta_N cs \<or>
                          eta_E cs \<le> 0 \<or> E_max_v cs \<le> eta_E cs),
      u_from_tau_u = (\<lambda>cs t. t / 3),
      tau_u_from_u = (\<lambda>cs x. 3 * x),
      set_tau = (\<lambda>cs. cs),
      control = (\<lambda>cs a. cs),
      upd_dynamics = (\<lambda>cs. cs\<lparr>eta_N := eta_N cs + nu_u cs * cos (eta_psi cs) / 2,
                                 eta_E := eta_E cs + nu_u cs * sin (eta_psi cs) / 2\<rparr>),
      tcpa = (\<lambda>NOS EOS NTS ETS chiOS chiTS VOS VTS. 0)\<rparr>"

definition ship_at :: "real \<Rightarrow> real \<Rightarrow> real \<Rightarrow> real \<Rightarrow> vessel" where
  "ship_at n e heading speed =
     \<lparr>eta_N = n, eta_E = e, eta_psi = heading, nu_u = speed, nu_v = 0, nu_r = 0,
      tau_u = 3, length_v = 1.255, N_max_v = 100, E_max_v = 100\<rparr>"

definition env_at :: "vessel \<Rightarrow> vessel list \<Rightarrow> real \<Rightarrow> real \<Rightarrow> env" where
  "env_at os tss gN gE =
     \<lparr>delta_t = 0.5, N_max = 100, E_max = 100, N_TSs = length tss, safety_dist = 7.5,
      TCPA_crit = 60, cnt_approach = ''tau'', goal_reach_dist = 25,
      max_episode_steps = 1000, r_coll_sigma = 5, step_cnt = 0, sim_t = 0,
      goal_N = gN, goal_E = gE, OS = os, TSs = tss,
      TS_COLREGs = replicate (length tss) 0, TS_COLREGs_old = replicate (length tss) 0,
      respawn_flags = replicate (length tss) False,
      r = 0, r_dist = 0, r_head = 0, r_coll = 0, r_COLREG = 0, r_map = 0\<rparr>"

text \<open>Random sources that repeat one sample.\<close>

definition demo_rng :: "real \<Rightarrow> nat \<Rightarrow> rng" where
  "demo_rng x k = \<lparr>np_random = sconst x, py_random = sconst k\<rparr>"

section \<open>Properties\<close>

subsection \<open>Angles\<close>

lemma rtd_le_iff: "rtd x \<le> c \<longleftrightarrow> x \<le> dtr c"
  by (simp add: rtd_def dtr_def field_simps)

lemma le_rtd_iff: "c \<le> rtd x \<longleftrightarrow> dtr c \<le> x"
  by (simp add: rtd_def dtr_def field_simps)

lemma angle_to_2pi_range: "0 \<le> angle_to_2pi a \<and> angle_to_2pi a < 2 * pi"
proof -
  have p: "0 < 2 * pi" by simp
  define k where "k = real_of_int \<lfloor>a / (2 * pi)\<rfloor>"
  have "k \<le> a / (2 * pi)" and "a / (2 * pi) < k + 1"
    unfolding k_def by linarith+
  then have "k * (2 * pi) \<le> a" and "a < (k + 1) * (2 * pi)"
    using p by (simp_all only: pos_le_divide_eq pos_divide_less_eq)
  then show ?thesis
    unfolding angle_to_2pi_def k_def [symmetric] by (simp add: algebra_simps)
qed

lemma angle_to_2pi_id: "0 \<le> a \<Longrightarrow> a < 2 * pi \<Longrightarrow> angle_to_2pi a = a"
proof -
  assume a: "0 \<le> a" "a < 2 * pi"
  then have "\<lfloor>a / (2 * pi)\<rfloor> = 0" by (simp add: floor_eq_iff)
  then show ?thesis by (simp add: angle_to_2pi_def)
qed

lemma angle_to_pi_range: "- pi < angle_to_pi a \<and> angle_to_pi a \<le> pi"
  using angle_to_2pi_range [of a] by (simp add: angle_to_pi_def Let_def)

lemma angle_to_2pi_dtr: "angle_to_2pi (dtr d) = dtr (d - 360 * of_int \<lfloor>d / 360\<rfloor>)"
proof -
  have "dtr d / (2 * pi) = d / 360" by (simp add: dtr_def)
  then show ?thesis by (simp add: angle_to_2pi_def dtr_def field_simps)
qed

lemma dtr_mono: "dtr a \<le> dtr b \<longleftrightarrow> a \<le> b"
  by (simp add: dtr_def field_simps)
lemma dtr_eq: "dtr a = dtr b \<longleftrightarrow> a = b"
  by (simp add: dtr_def field_simps)
lemma dtr_less: "dtr a < dtr b \<longleftrightarrow> a < b"
  by (simp add: dtr_def field_simps)
lemma dtr_180: "dtr 180 = pi" by (simp add: dtr_def)
lemma dtr_360: "dtr 360 = 2 * pi" by (simp add: dtr_def)
lemma dtr_0: "dtr 0 = 0" by (simp add: dtr_def)


lemma cond_head_on_spec: "cond_head_on b c = spec_head_on b c"
  unfolding cond_head_on_def spec_head_on_def rtd_def dtr_def abs_le_iff
  using pi_gt_zero by (auto simp: field_simps)

lemma cond_starboard_spec: "cond_starboard b c = spec_starboard b c"
  unfolding cond_starboard_def spec_starboard_def rtd_def dtr_def
  using pi_gt_zero by (auto simp: field_simps)

lemma cond_portside_spec: "cond_portside b c = spec_portside b c"
  unfolding cond_portside_def spec_portside_def rtd_def dtr_def
  using pi_gt_zero by (auto simp: field_simps)

lemma cond_overtaking_spec: "cond_overtaking b c vo cs vt = spec_overtaking b c vo cs vt"
  unfolding cond_overtaking_def cond_overtaking_angles_def spec_overtaking_def rtd_def dtr_def
  using pi_gt_zero by (auto simp: field_simps)


lemma demo_V: "get_V demo_ship (ship_at n e h sp) = \<bar>sp\<bar>"
  by (simp add: demo_ship_def ship_at_def)
lemma demo_course: "get_course demo_ship (ship_at n e h sp) = h"
  by (simp add: demo_ship_def ship_at_def)


subsection \<open>The COLREG classifier\<close>

text \<open>
  C1: for every pair of vessels, \<^verbatim>\<open>_get_COLREG_situation\<close> returns the class found by
  testing HeadOn, StarboardCrossing, PortsideCrossing and Overtaking in this order,
  first match winning, with the thresholds of the specification (in radians:
  \<open>spec_situation\<close>), and 0 (None) when no class matches. With the default
  \<^verbatim>\<open>distance = np.inf\<close> (\<open>None\<close>) no distance test applies; with an explicit cutoff a
  target farther away than the cutoff gives 0.
\<close>

theorem get_COLREG_situation_priority:
  "get_COLREG_situation X os ts distance =
     (if (case distance of None \<Rightarrow> False
          | Some d \<Rightarrow> d < ED (eta_N os) (eta_E os) (eta_N ts) (eta_E ts) True)
      then 0 else spec_situation X os ts)"
  by (simp add: get_COLREG_situation_def spec_situation_def Let_def cond_head_on_spec
      cond_starboard_spec cond_portside_spec cond_overtaking_spec)


subsection \<open>The ship domain\<close>

lemma rel_speed_nonneg: "0 \<le> rel_speed X os ts"
  by (simp add: rel_speed_def Let_def)

lemma domain_mono:
  assumes "0 \<le> (l::real)" "0 \<le> (V1::real)" "V1 \<le> V2"
  shows "l * V1 powr 1.26 + 30 * V1 \<le> l * V2 powr 1.26 + 30 * V2"
proof -
  have "V1 powr 1.26 \<le> V2 powr 1.26"
    using assms by (intro powr_mono2) simp_all
  then have "l * V1 powr 1.26 \<le> l * V2 powr 1.26"
    using assms(1) by (rule mult_left_mono)
  then show ?thesis using assms(3) by simp
qed

text \<open>
  C8: \<^verbatim>\<open>_get_ship_domain\<close> returns \<^verbatim>\<open>length * V^1.26 + 30 * V\<close> for
  \<^verbatim>\<open>V = max(V_own, VR)\<close>, where \<^verbatim>\<open>VR\<close> is the magnitude of the difference of the two
  velocity vectors resolved with each vessel's course angle; for a non-negative length
  the radius is monotonically non-decreasing in \<^verbatim>\<open>max(V_own, VR)\<close>.
\<close>

theorem get_ship_domain_monotone:
  "get_ship_domain X os ts =
     length_v os * (max (get_V X os) (rel_speed X os ts)) powr 1.26
       + 30 * max (get_V X os) (rel_speed X os ts) \<and>
   rel_speed X os ts =
     sqrt ((get_V X ts * cos (get_course X ts) - get_V X os * cos (get_course X os))\<^sup>2
         + (get_V X ts * sin (get_course X ts) - get_V X os * sin (get_course X os))\<^sup>2) \<and>
   (0 \<le> length_v os \<and> length_v os' = length_v os \<and>
    max (get_V X os) (rel_speed X os ts) \<le> max (get_V X os') (rel_speed X os' ts')
    \<longrightarrow> get_ship_domain X os ts \<le> get_ship_domain X os' ts')"
proof (intro conjI impI)
  show "get_ship_domain X os ts =
     length_v os * (max (get_V X os) (rel_speed X os ts)) powr 1.26
       + 30 * max (get_V X os) (rel_speed X os ts)"
    by (simp add: get_ship_domain_def Let_def)
  show "rel_speed X os ts =
     sqrt ((get_V X ts * cos (get_course X ts) - get_V X os * cos (get_course X os))\<^sup>2
         + (get_V X ts * sin (get_course X ts) - get_V X os * sin (get_course X os))\<^sup>2)"
    by (simp add: rel_speed_def Let_def)
next
  assume h: "0 \<le> length_v os \<and> length_v os' = length_v os \<and>
    max (get_V X os) (rel_speed X os ts) \<le> max (get_V X os') (rel_speed X os' ts')"
  have "0 \<le> max (get_V X os) (rel_speed X os ts)"
    using rel_speed_nonneg [of X os ts] by simp
  then have "length_v os * max (get_V X os) (rel_speed X os ts) powr 1.26
                 + 30 * max (get_V X os) (rel_speed X os ts)
             \<le> length_v os * max (get_V X os') (rel_speed X os' ts') powr 1.26
                 + 30 * max (get_V X os') (rel_speed X os' ts')"
    using h by (intro domain_mono) blast+
  with h show "get_ship_domain X os ts \<le> get_ship_domain X os' ts'"
    unfolding get_ship_domain_def Let_def by metis
qed


theorem get_ship_domain_monotone_witness:
  "0 \<le> length_v (ship_at 20 20 0 1) \<and>
   length_v (ship_at 20 20 0 2) = length_v (ship_at 20 20 0 1) \<and>
   max (get_V demo_ship (ship_at 20 20 0 1))
       (rel_speed demo_ship (ship_at 20 20 0 1) (ship_at 60 60 0 0))
     \<le> max (get_V demo_ship (ship_at 20 20 0 2))
         (rel_speed demo_ship (ship_at 20 20 0 2) (ship_at 60 60 0 0)) \<and>
   get_ship_domain demo_ship (ship_at 20 20 0 1) (ship_at 60 60 0 0)
     \<le> get_ship_domain demo_ship (ship_at 20 20 0 2) (ship_at 60 60 0 0)"
proof -
  have l: "0 \<le> length_v (ship_at 20 20 0 1)"
    "length_v (ship_at 20 20 0 2) = length_v (ship_at 20 20 0 1)"
    by (simp_all add: ship_at_def)
  have m: "max (get_V demo_ship (ship_at 20 20 0 1))
       (rel_speed demo_ship (ship_at 20 20 0 1) (ship_at 60 60 0 0))
     \<le> max (get_V demo_ship (ship_at 20 20 0 2))
         (rel_speed demo_ship (ship_at 20 20 0 2) (ship_at 60 60 0 0))"
    by (simp add: rel_speed_def Let_def demo_V demo_course)
  from l m get_ship_domain_monotone [of demo_ship "ship_at 20 20 0 1" "ship_at 60 60 0 0"
      "ship_at 20 20 0 2" "ship_at 60 60 0 0"]
  show ?thesis by blast
qed

subsection \<open>Overlaps of the four conditions\<close>

lemma angle_to_2pi_0: "angle_to_2pi 0 = 0"
  by (simp add: angle_to_2pi_def)

lemma angle_to_2pi_pi: "angle_to_2pi pi = pi"
  by (rule angle_to_2pi_id) simp_all

lemma angle_to_pi_id: "0 \<le> a \<Longrightarrow> a \<le> pi \<Longrightarrow> angle_to_pi a = a"
proof -
  assume a: "0 \<le> a" "a \<le> pi"
  have "a < 2 * pi" using a pi_gt_zero by linarith
  with a have "angle_to_2pi a = a" by (simp add: angle_to_2pi_id)
  with a show ?thesis by (simp add: angle_to_pi_def)
qed

lemma angle_to_pi_upper: "pi < a \<Longrightarrow> a < 2 * pi \<Longrightarrow> angle_to_pi a = a - 2 * pi"
proof -
  assume a: "pi < a" "a < 2 * pi"
  have "0 \<le> a" using a pi_gt_zero by linarith
  with a have "angle_to_2pi a = a" by (simp add: angle_to_2pi_id)
  with a show ?thesis by (simp add: angle_to_pi_def)
qed

lemma angle_to_pi_dtr_low: "0 \<le> d \<Longrightarrow> d \<le> 180 \<Longrightarrow> angle_to_pi (dtr d) = dtr d"
  by (rule angle_to_pi_id) (simp_all add: dtr_def field_simps)

lemma angle_to_pi_dtr_high:
  "180 < d \<Longrightarrow> d < 360 \<Longrightarrow> angle_to_pi (dtr d) = dtr (d - 360)"
proof -
  assume d: "180 < d" "d < 360"
  have "pi < dtr d" "dtr d < 2 * pi" using d by (simp_all add: dtr_def field_simps)
  then have "angle_to_pi (dtr d) = dtr d - 2 * pi" by (rule angle_to_pi_upper)
  then show ?thesis by (simp add: dtr_def field_simps)
qed

lemma dtr_rtd: "dtr (rtd a) = a" by (simp add: dtr_def rtd_def)
lemma rtd_dtr: "rtd (dtr a) = a" by (simp add: dtr_def rtd_def)

lemma cond_head_on_deg:
  "0 \<le> b \<Longrightarrow> b < 360 \<Longrightarrow>
   cond_head_on (dtr b) (dtr c) \<longleftrightarrow> (b \<le> 5 \<or> 355 \<le> b) \<and> 175 \<le> c \<and> c \<le> 185"
proof (cases "b \<le> 180")
  case True
  assume "0 \<le> b" "b < 360"
  with True show ?thesis
    by (auto simp: cond_head_on_def angle_to_pi_dtr_low rtd_dtr)
next
  case False
  assume "0 \<le> b" "b < 360"
  with False show ?thesis
    by (auto simp: cond_head_on_def angle_to_pi_dtr_high rtd_dtr)
qed

lemma cond_starboard_deg:
  "cond_starboard (dtr b) (dtr c) \<longleftrightarrow> 5 \<le> b \<and> b \<le> 112.5 \<and> 185 \<le> c \<and> c \<le> 292.5"
  by (simp add: cond_starboard_def rtd_dtr)

lemma cond_portside_deg:
  "cond_portside (dtr b) (dtr c) \<longleftrightarrow> 247.5 \<le> b \<and> b \<le> 355 \<and> 67.5 \<le> c \<and> c \<le> 175"
  by (simp add: cond_portside_def rtd_dtr)

lemma cond_overtaking_angles_deg:
  "0 \<le> c \<Longrightarrow> c < 360 \<Longrightarrow>
   cond_overtaking_angles (dtr b) (dtr c) \<longleftrightarrow>
     112.5 \<le> b \<and> b \<le> 247.5 \<and> (c \<le> 67.5 \<or> 292.5 \<le> c)"
proof (cases "c \<le> 180")
  case True
  assume "0 \<le> c" "c < 360"
  with True show ?thesis
    by (auto simp: cond_overtaking_angles_def angle_to_pi_dtr_low rtd_dtr)
next
  case False
  assume "0 \<le> c" "c < 360"
  with False show ?thesis
    by (auto simp: cond_overtaking_angles_def angle_to_pi_dtr_high rtd_dtr)
qed


lemma head_on_starboard_deg:
  "cond_head_on (dtr B) (dtr C) \<and> cond_starboard (dtr B) (dtr C) \<longleftrightarrow> B = 5 \<and> C = 185"
proof (cases "0 \<le> B \<and> B < 360")
  case True
  then show ?thesis by (auto simp: cond_head_on_deg cond_starboard_deg)
next
  case False
  then show ?thesis by (auto simp: cond_starboard_deg)
qed

lemma head_on_portside_deg:
  "cond_head_on (dtr B) (dtr C) \<and> cond_portside (dtr B) (dtr C) \<longleftrightarrow> B = 355 \<and> C = 175"
proof (cases "0 \<le> B \<and> B < 360")
  case True
  then show ?thesis by (auto simp: cond_head_on_deg cond_portside_deg)
next
  case False
  then show ?thesis by (auto simp: cond_portside_deg)
qed

lemma head_on_C_deg: "cond_head_on b (dtr C) \<Longrightarrow> 175 \<le> C \<and> C \<le> 185"
  by (simp add: cond_head_on_def rtd_dtr)

lemma head_on_overtaking_deg:
  "\<not> (cond_head_on b (dtr C) \<and> cond_overtaking_angles (dtr B') (dtr C))"
proof
  assume h: "cond_head_on b (dtr C) \<and> cond_overtaking_angles (dtr B') (dtr C)"
  then have c: "175 \<le> C \<and> C \<le> 185" using head_on_C_deg by blast
  then have "0 \<le> C" "C < 360" by simp_all
  with h c show False by (simp add: cond_overtaking_angles_deg)
qed

lemma starboard_overtaking_deg:
  "cond_starboard (dtr B) (dtr C) \<and> cond_overtaking_angles (dtr B') (dtr C) \<longleftrightarrow>
   5 \<le> B \<and> B \<le> 112.5 \<and> C = 292.5 \<and> 112.5 \<le> B' \<and> B' \<le> 247.5"
proof (cases "0 \<le> C \<and> C < 360")
  case True
  then show ?thesis by (auto simp: cond_starboard_deg cond_overtaking_angles_deg)
next
  case False
  then show ?thesis by (auto simp: cond_starboard_deg)
qed

lemma portside_overtaking_deg:
  "cond_portside (dtr B) (dtr C) \<and> cond_overtaking_angles (dtr B') (dtr C) \<longleftrightarrow>
   247.5 \<le> B \<and> B \<le> 355 \<and> C = 67.5 \<and> 112.5 \<le> B' \<and> B' \<le> 247.5"
proof (cases "0 \<le> C \<and> C < 360")
  case True
  then show ?thesis by (auto simp: cond_portside_deg cond_overtaking_angles_deg)
next
  case False
  then show ?thesis by (auto simp: cond_portside_deg)
qed

lemma bng_abs_north: "n0 < n1 \<Longrightarrow> bng_abs n0 e n1 e = 0"
  by (simp add: bng_abs_def Let_def angle_to_2pi_0)

lemma angle_to_2pi_dtr_neg: "- 360 \<le> d \<Longrightarrow> d < 0 \<Longrightarrow> angle_to_2pi (dtr d) = dtr (d + 360)"
proof -
  assume d: "- 360 \<le> d" "d < 0"
  then have "\<lfloor>d / 360\<rfloor> = - 1" by (simp add: floor_eq_iff)
  then show ?thesis by (simp add: angle_to_2pi_dtr)
qed

lemma overlap_bng: "bng_rel 20 20 40 20 (dtr 355) = dtr 5"
proof -
  have "bng_rel 20 20 40 20 (dtr 355) = angle_to_2pi (dtr (- 355))"
    by (simp add: bng_rel_def bng_abs_north dtr_def)
  also have "\<dots> = dtr 5" by (simp add: angle_to_2pi_dtr_neg)
  finally show ?thesis .
qed

lemma overlap_C_T: "head_inter (dtr 355) pi = dtr 185"
proof -
  have "pi - dtr 355 = dtr (- 175)" by (simp add: dtr_def field_simps)
  then have "head_inter (dtr 355) pi = angle_to_2pi (dtr (- 175))"
    by (simp add: head_inter_def)
  also have "\<dots> = dtr 185" by (simp add: angle_to_2pi_dtr_neg)
  finally show ?thesis .
qed

text \<open>
  The claim C2 as stated does not hold: an own ship heading 355 degrees with a target
  dead north of it that heads 180 degrees sees the target at a relative bearing of
  exactly 5 degrees under an intersection angle of exactly 185 degrees, and there both
  the head-on and the starboard-crossing condition hold. The priority order returns
  head-on (1).
\<close>

theorem head_on_starboard_overlap:
  "cond_head_on (bng_rel 20 20 40 20 (dtr 355)) (head_inter (dtr 355) pi) \<and>
   cond_starboard (bng_rel 20 20 40 20 (dtr 355)) (head_inter (dtr 355) pi) \<and>
   get_COLREG_situation demo_ship (ship_at 20 20 (dtr 355) 1) (ship_at 40 20 pi 1) None = 1"
proof -
  have h: "cond_head_on (dtr 5) (dtr 185)"
    by (simp add: cond_head_on_deg)
  have s: "cond_starboard (dtr 5) (dtr 185)"
    by (simp add: cond_starboard_deg)
  have "get_COLREG_situation demo_ship (ship_at 20 20 (dtr 355) 1) (ship_at 40 20 pi 1) None = 1"
    using h by (simp add: get_COLREG_situation_def Let_def ship_at_def overlap_bng overlap_C_T)
  with h s show ?thesis by (simp add: overlap_bng overlap_C_T)
qed


text \<open>
  C2 (amended): the angular conditions of two distinct classes hold together only at
  boundary values. Head-on and starboard crossing overlap exactly at bearing 5 degrees
  with intersection angle 185 degrees, head-on and portside crossing exactly at bearing
  355 degrees with intersection angle 175 degrees; starboard and portside crossing never
  overlap, head-on and the angles of overtaking never overlap; a crossing and the angles
  of overtaking overlap only at the intersection angle 292.5 degrees (starboard) or 67.5
  degrees (portside). In every case the classifier returns the first class of the
  priority order whose condition holds, so that each input gets exactly one class.
\<close>

theorem COLREG_conditions_overlap:
  "(cond_head_on b c \<and> cond_starboard b c \<longleftrightarrow> b = dtr 5 \<and> c = dtr 185) \<and>
   (cond_head_on b c \<and> cond_portside b c \<longleftrightarrow> b = dtr 355 \<and> c = dtr 175) \<and>
   \<not> (cond_starboard b c \<and> cond_portside b c) \<and>
   \<not> (cond_head_on b c \<and> cond_overtaking_angles b' c) \<and>
   (cond_starboard b c \<and> cond_overtaking_angles b' c \<longleftrightarrow>
      dtr 5 \<le> b \<and> b \<le> dtr 112.5 \<and> c = dtr 292.5 \<and> dtr 112.5 \<le> b' \<and> b' \<le> dtr 247.5) \<and>
   (cond_portside b c \<and> cond_overtaking_angles b' c \<longleftrightarrow>
      dtr 247.5 \<le> b \<and> b \<le> dtr 355 \<and> c = dtr 67.5 \<and> dtr 112.5 \<le> b' \<and> b' \<le> dtr 247.5) \<and>
   get_COLREG_situation X os ts None =
     (let bng_OS = bng_rel (eta_N os) (eta_E os) (eta_N ts) (eta_E ts) (eta_psi os);
          bng_TS = bng_rel (eta_N ts) (eta_E ts) (eta_N os) (eta_E os) (eta_psi ts);
          C_T = head_inter (eta_psi os) (eta_psi ts)
      in if cond_head_on bng_OS C_T then 1
         else if cond_starboard bng_OS C_T then 2
         else if cond_portside bng_OS C_T then 3
         else if cond_overtaking bng_TS C_T (get_V X os)
                   (head_inter (get_course X os) (get_course X ts)) (get_V X ts) then 4
         else 0)"
proof -
  obtain B C B' where bc: "b = dtr B" "c = dtr C" "b' = dtr B'"
    using dtr_rtd [symmetric] by blast
  have 1: "cond_head_on b c \<and> cond_starboard b c \<longleftrightarrow> b = dtr 5 \<and> c = dtr 185"
    unfolding bc by (simp add: head_on_starboard_deg dtr_eq)
  have 2: "cond_head_on b c \<and> cond_portside b c \<longleftrightarrow> b = dtr 355 \<and> c = dtr 175"
    unfolding bc by (simp add: head_on_portside_deg dtr_eq)
  have 3: "\<not> (cond_starboard b c \<and> cond_portside b c)"
    unfolding bc by (simp add: cond_starboard_deg cond_portside_deg)
  have 4: "\<not> (cond_head_on b c \<and> cond_overtaking_angles b' c)"
    unfolding bc by (rule head_on_overtaking_deg)
  have 5: "cond_starboard b c \<and> cond_overtaking_angles b' c \<longleftrightarrow>
      dtr 5 \<le> b \<and> b \<le> dtr 112.5 \<and> c = dtr 292.5 \<and> dtr 112.5 \<le> b' \<and> b' \<le> dtr 247.5"
    unfolding bc starboard_overtaking_deg dtr_mono dtr_eq by (rule refl)
  have 6: "cond_portside b c \<and> cond_overtaking_angles b' c \<longleftrightarrow>
      dtr 247.5 \<le> b \<and> b \<le> dtr 355 \<and> c = dtr 67.5 \<and> dtr 112.5 \<le> b' \<and> b' \<le> dtr 247.5"
    unfolding bc portside_overtaking_deg dtr_mono dtr_eq by (rule refl)
  have 7: "get_COLREG_situation X os ts None =
     (let bng_OS = bng_rel (eta_N os) (eta_E os) (eta_N ts) (eta_E ts) (eta_psi os);
          bng_TS = bng_rel (eta_N ts) (eta_E ts) (eta_N os) (eta_E os) (eta_psi ts);
          C_T = head_inter (eta_psi os) (eta_psi ts)
      in if cond_head_on bng_OS C_T then 1
         else if cond_starboard bng_OS C_T then 2
         else if cond_portside bng_OS C_T then 3
         else if cond_overtaking bng_TS C_T (get_V X os)
                   (head_inter (get_course X os) (get_course X ts)) (get_V X ts) then 4
         else 0)"
    by (simp add: get_COLREG_situation_def Let_def)
  from 1 2 3 4 5 6 7 show ?thesis by blast
qed

subsection \<open>Classification and distance\<close>

lemma COLREGs_loop_map:
  "COLREGs_loop X os tss acc = acc @ map (\<lambda>ts. get_COLREG_situation X os ts None) tss"
  by (induction tss arbitrary: acc) simp_all

lemma set_COLREGs_map:
  "TS_COLREGs (set_COLREGs X s) = map (\<lambda>ts. get_COLREG_situation X (OS s) ts None) (TSs s)"
  by (simp add: set_COLREGs_def Let_def COLREGs_loop_map)

lemma far_bng: "bng_rel 20 20 90 20 0 = 0"
  by (simp add: bng_rel_def bng_abs_north angle_to_2pi_0)

lemma far_C_T: "head_inter 0 pi = dtr 180"
  by (simp add: head_inter_def angle_to_2pi_pi dtr_180)

lemma far_head_on: "cond_head_on 0 (dtr 180)"
  using cond_head_on_deg [of 0 180] by (simp add: dtr_0)

lemma far_class:
  "get_COLREG_situation demo_ship (ship_at 20 20 0 1) (ship_at 90 20 pi 0) None = 1"
  using far_head_on
  by (simp add: get_COLREG_situation_def Let_def ship_at_def far_bng far_C_T)

lemma ship_at_length: "length_v (ship_at n e h sp) = 1.255"
  by (simp add: ship_at_def)

lemma far_domain: "get_ship_domain demo_ship (ship_at 20 20 0 1) (ship_at 90 20 pi 0) = 31.255"
  by (simp add: get_ship_domain_def rel_speed_def Let_def demo_V demo_course ship_at_length)

lemma far_ED: "ED 20 20 90 20 True = 70"
  by (simp add: ED_def Let_def real_sqrt_abs2)

text \<open>
  The claim C3 as stated does not hold: \<^verbatim>\<open>_set_COLREGs\<close> calls the classifier with the
  default \<^verbatim>\<open>distance = np.inf\<close>. An own ship at (20, 20) heading north at speed 1 has
  a ship domain of 31.255 m towards a resting target at (90, 20) that heads south; the
  target is 70 m away, beyond the domain, and is classified head-on (1).
\<close>

theorem far_target_classified:
  "get_ship_domain demo_ship (ship_at 20 20 0 1) (ship_at 90 20 pi 0)
     < ED (eta_N (ship_at 20 20 0 1)) (eta_E (ship_at 20 20 0 1))
          (eta_N (ship_at 90 20 pi 0)) (eta_E (ship_at 90 20 pi 0)) True \<and>
   TS_COLREGs (set_COLREGs demo_ship
      (env_at (ship_at 20 20 0 1) [ship_at 90 20 pi 0] 90 90)) = [1]"
proof -
  have "ED (eta_N (ship_at 20 20 0 1)) (eta_E (ship_at 20 20 0 1))
          (eta_N (ship_at 90 20 pi 0)) (eta_E (ship_at 90 20 pi 0)) True = 70"
    using far_ED by (simp add: ship_at_def)
  moreover have "TS_COLREGs (set_COLREGs demo_ship
      (env_at (ship_at 20 20 0 1) [ship_at 90 20 pi 0] 90 90)) = [1]"
    by (simp add: set_COLREGs_map env_at_def far_class)
  ultimately show ?thesis by (simp add: far_domain)
qed

text \<open>
  C3 (amended): the per-tick pass \<^verbatim>\<open>_set_COLREGs\<close> keeps the previous classes and
  classifies every target by the angular and speed conditions alone (the default
  \<^verbatim>\<open>distance = np.inf\<close> excludes no target, whatever the ship domain is); a target is
  classified as None (0) for its distance only when the classifier is called with an
  explicit cutoff that the Euclidean distance exceeds, as the renderer does with 10000;
  within the cutoff the class is the one of the conditions.
\<close>

theorem set_COLREGs_no_distance_gate:
  "TS_COLREGs (set_COLREGs X s) = map (\<lambda>ts. spec_situation X (OS s) ts) (TSs s) \<and>
   TS_COLREGs_old (set_COLREGs X s) = TS_COLREGs s \<and>
   (d < ED (eta_N os) (eta_E os) (eta_N ts) (eta_E ts) True \<longrightarrow>
      get_COLREG_situation X os ts (Some d) = 0) \<and>
   (ED (eta_N os) (eta_E os) (eta_N ts) (eta_E ts) True \<le> d \<longrightarrow>
      get_COLREG_situation X os ts (Some d) = spec_situation X os ts)"
proof -
  have n: "get_COLREG_situation X os' ts' None = spec_situation X os' ts'" for os' ts'
    by (simp add: get_COLREG_situation_def spec_situation_def Let_def cond_head_on_spec
        cond_starboard_spec cond_portside_spec cond_overtaking_spec)
  have 1: "TS_COLREGs (set_COLREGs X s) = map (\<lambda>ts. spec_situation X (OS s) ts) (TSs s)"
    by (simp add: set_COLREGs_map n)
  have 2: "TS_COLREGs_old (set_COLREGs X s) = TS_COLREGs s"
    by (simp add: set_COLREGs_def Let_def)
  have 3: "d < ED (eta_N os) (eta_E os) (eta_N ts) (eta_E ts) True \<longrightarrow>
      get_COLREG_situation X os ts (Some d) = 0"
    by (simp add: get_COLREG_situation_def Let_def)
  have 4: "ED (eta_N os) (eta_E os) (eta_N ts) (eta_E ts) True \<le> d \<longrightarrow>
      get_COLREG_situation X os ts (Some d) = spec_situation X os ts"
    by (simp add: get_COLREG_situation_def spec_situation_def Let_def cond_head_on_spec
        cond_starboard_spec cond_portside_spec cond_overtaking_spec)
  from 1 2 3 4 show ?thesis by blast
qed

lemma far_spec:
  "spec_situation demo_ship (ship_at 20 20 0 1) (ship_at 90 20 pi 0) = 1"
proof -
  have "spec_head_on 0 (dtr 180)"
    using far_head_on by (simp add: cond_head_on_spec)
  then show ?thesis
    by (simp add: spec_situation_def Let_def ship_at_def far_bng far_C_T)
qed

theorem set_COLREGs_no_distance_gate_witness:
  "(50::real) < ED (eta_N (ship_at 20 20 0 1)) (eta_E (ship_at 20 20 0 1))
          (eta_N (ship_at 90 20 pi 0)) (eta_E (ship_at 90 20 pi 0)) True \<and>
   get_COLREG_situation demo_ship (ship_at 20 20 0 1) (ship_at 90 20 pi 0) (Some 50) = 0 \<and>
   ED (eta_N (ship_at 20 20 0 1)) (eta_E (ship_at 20 20 0 1))
          (eta_N (ship_at 90 20 pi 0)) (eta_E (ship_at 90 20 pi 0)) True \<le> 10000 \<and>
   get_COLREG_situation demo_ship (ship_at 20 20 0 1) (ship_at 90 20 pi 0) (Some 10000) = 1"
proof -
  have e: "ED (eta_N (ship_at 20 20 0 1)) (eta_E (ship_at 20 20 0 1))
          (eta_N (ship_at 90 20 pi 0)) (eta_E (ship_at 90 20 pi 0)) True = 70"
    using far_ED by (simp add: ship_at_def)
  have a: "get_COLREG_situation demo_ship (ship_at 20 20 0 1) (ship_at 90 20 pi 0) (Some 50) = 0"
    using set_COLREGs_no_distance_gate [of demo_ship _ 50 "ship_at 20 20 0 1" "ship_at 90 20 pi 0"] e
    by simp
  have b: "get_COLREG_situation demo_ship (ship_at 20 20 0 1) (ship_at 90 20 pi 0) (Some 10000) = 1"
    using set_COLREGs_no_distance_gate [of demo_ship _ 10000 "ship_at 20 20 0 1" "ship_at 90 20 pi 0"] e
    by (simp add: far_spec)
  from e a b show ?thesis by simp
qed

subsection \<open>The reward\<close>

lemma r_coll_loop_sum:
  "r_coll_loop s tss acc = acc + (\<Sum>ts\<leftarrow>tss. spec_coll_term s ts)"
  by (induction tss arbitrary: acc) (simp_all add: Let_def spec_coll_term_def)

lemma spec_coll_term_neg: "spec_coll_term s ts < 0"
proof -
  define x where "x = exp (- 0.5 * ED (eta_N (OS s)) (eta_E (OS s)) (eta_N ts) (eta_E ts) False
                  / (r_coll_sigma s)\<^sup>2)"
  have "0 < x" unfolding x_def by (rule exp_gt_zero)
  moreover have "spec_coll_term s ts = - x \<or> spec_coll_term s ts = - x - 10"
    unfolding spec_coll_term_def x_def by (cases "ED (eta_N (OS s)) (eta_E (OS s)) (eta_N ts) (eta_E ts) False < (safety_dist s)\<^sup>2") simp_all
  ultimately show ?thesis by linarith
qed

lemma sum_list_nonpos: "(\<And>x. x \<in> set xs \<Longrightarrow> f x \<le> (0::real)) \<Longrightarrow> (\<Sum>x\<leftarrow>xs. f x) \<le> 0"
  by (induction xs) (simp_all add: add_nonpos_nonpos)

lemma rule_penalty_covered:
  "i < length (respawn_flags s) \<Longrightarrow> i < length (TS_COLREGs s) \<Longrightarrow>
   i < length (TS_COLREGs_old s) \<Longrightarrow>
   rule_penalty s i ts = Inr (if spec_penalized s i ts then 10 else 0)"
  by (simp add: rule_penalty_def spec_penalized_def dtr_180)

lemma r_COLREG_loop_sum:
  "k + length tss \<le> length (respawn_flags s) \<Longrightarrow>
   k + length tss \<le> length (TS_COLREGs s) \<Longrightarrow>
   k + length tss \<le> length (TS_COLREGs_old s) \<Longrightarrow>
   r_COLREG_loop s k tss acc =
     Inr (acc - (\<Sum>(i, ts)\<leftarrow>enumerate k tss. if spec_penalized s i ts then 10 else 0))"
proof (induction tss arbitrary: k acc)
  case Nil
  then show ?case by simp
next
  case (Cons ts tss)
  have "rule_penalty s k ts = Inr (if spec_penalized s k ts then 10 else 0)"
    using Cons.prems by (intro rule_penalty_covered) simp_all
  moreover have "r_COLREG_loop s (Suc k) tss acc' =
     Inr (acc' - (\<Sum>(i, ts)\<leftarrow>enumerate (Suc k) tss. if spec_penalized s i ts then 10 else 0))"
    for acc'
    using Cons.prems by (intro Cons.IH) simp_all
  ultimately show ?case by simp
qed

lemma calculate_reward_total:
  assumes "lists_cover_targets s"
  shows "calculate_reward X s w1 w2 w3 w4 w5 =
     Inr (s\<lparr>r_dist := - ED (eta_N (OS s)) (eta_E (OS s)) (goal_N s) (goal_E s) True / E_max s,
            r_head := - \<bar>angle_to_pi (bng_rel (eta_N (OS s)) (eta_E (OS s)) (goal_N s) (goal_E s)
                          (eta_psi (OS s)))\<bar> / pi,
            r_coll := (\<Sum>ts\<leftarrow>TSs s. spec_coll_term s ts),
            r_COLREG := - (\<Sum>(i, ts)\<leftarrow>enumerate 0 (TSs s). if spec_penalized s i ts then 10 else 0),
            r_map := (if is_off_map X (OS s) then - 10 else 0),
            r := w1 * (- ED (eta_N (OS s)) (eta_E (OS s)) (goal_N s) (goal_E s) True / E_max s)
               + w2 * (- \<bar>angle_to_pi (bng_rel (eta_N (OS s)) (eta_E (OS s)) (goal_N s) (goal_E s)
                          (eta_psi (OS s)))\<bar> / pi)
               + w3 * (\<Sum>ts\<leftarrow>TSs s. spec_coll_term s ts)
               + w4 * (- (\<Sum>(i, ts)\<leftarrow>enumerate 0 (TSs s). if spec_penalized s i ts then 10 else 0))
               + w5 * (if is_off_map X (OS s) then - 10 else 0)\<rparr>)"
proof -
  have "r_COLREG_loop s 0 (TSs s) 0 =
     Inr (0 - (\<Sum>(i, ts)\<leftarrow>enumerate 0 (TSs s). if spec_penalized s i ts then 10 else 0))"
    using assms unfolding lists_cover_targets_def by (intro r_COLREG_loop_sum) simp_all
  then show ?thesis
    by (simp add: calculate_reward_def Let_def r_coll_loop_sum)
qed

lemma env_at_fields:
  "OS (env_at os tss gN gE) = os" "TSs (env_at os tss gN gE) = tss"
  "safety_dist (env_at os tss gN gE) = 7.5" "r_coll_sigma (env_at os tss gN gE) = 5"
  "respawn_flags (env_at os tss gN gE) = replicate (length tss) False"
  "TS_COLREGs (env_at os tss gN gE) = replicate (length tss) 0"
  "TS_COLREGs_old (env_at os tss gN gE) = replicate (length tss) 0"
  by (simp_all add: env_at_def)

lemma ship_at_pose:
  "eta_N (ship_at n e h sp) = n" "eta_E (ship_at n e h sp) = e" "eta_psi (ship_at n e h sp) = h"
  by (simp_all add: ship_at_def)

lemma env_at_covered: "lists_cover_targets (env_at os tss gN gE)"
  by (simp add: lists_cover_targets_def env_at_fields)

text \<open>
  C6: in every state whose index lists cover the targets, \<^verbatim>\<open>_calculate_reward\<close>
  returns, and the collision reward it stores is the sum over all targets of
  \<^verbatim>\<open>-exp(-0.5 * ED^2 / sigma^2)\<close> minus 10 exactly when the squared distance is
  strictly less than \<^verbatim>\<open>safety_dist^2\<close>; it is never positive, and a target at exactly
  \<^verbatim>\<open>ED^2 = safety_dist^2\<close> contributes the Gaussian term alone.
\<close>

theorem r_coll_sum_nonpos:
  "lists_cover_targets s \<longrightarrow>
   (\<exists>s'. calculate_reward X s w_dist w_head w_coll w_COLREG w_map = Inr s' \<and>
      r_coll s' = (\<Sum>ts\<leftarrow>TSs s. spec_coll_term s ts) \<and>
      r_coll s' \<le> 0 \<and>
      (\<forall>ts. ED (eta_N (OS s)) (eta_E (OS s)) (eta_N ts) (eta_E ts) False = (safety_dist s)\<^sup>2
         \<longrightarrow> spec_coll_term s ts = - exp (- 0.5 * (safety_dist s)\<^sup>2 / (r_coll_sigma s)\<^sup>2)))"
proof
  assume a: "lists_cover_targets s"
  have "(\<Sum>ts\<leftarrow>TSs s. spec_coll_term s ts) \<le> 0"
    by (rule sum_list_nonpos) (simp add: less_imp_le spec_coll_term_neg)
  moreover have "\<forall>ts. ED (eta_N (OS s)) (eta_E (OS s)) (eta_N ts) (eta_E ts) False = (safety_dist s)\<^sup>2
         \<longrightarrow> spec_coll_term s ts = - exp (- 0.5 * (safety_dist s)\<^sup>2 / (r_coll_sigma s)\<^sup>2)"
    by (simp add: spec_coll_term_def)
  ultimately show "\<exists>s'. calculate_reward X s w_dist w_head w_coll w_COLREG w_map = Inr s' \<and>
      r_coll s' = (\<Sum>ts\<leftarrow>TSs s. spec_coll_term s ts) \<and>
      r_coll s' \<le> 0 \<and>
      (\<forall>ts. ED (eta_N (OS s)) (eta_E (OS s)) (eta_N ts) (eta_E ts) False = (safety_dist s)\<^sup>2
         \<longrightarrow> spec_coll_term s ts = - exp (- 0.5 * (safety_dist s)\<^sup>2 / (r_coll_sigma s)\<^sup>2))"
    by (simp add: calculate_reward_total [OF a])
qed


theorem r_coll_sum_nonpos_witness:
  "lists_cover_targets (env_at (ship_at 20 20 0 1) [ship_at 20 27.5 0 1] 90 90) \<and>
   (\<exists>s'. calculate_reward demo_ship (env_at (ship_at 20 20 0 1) [ship_at 20 27.5 0 1] 90 90)
            1 1 1 1 1 = Inr s' \<and>
         r_coll s' = - exp (- (9 / 8)) \<and> r_coll s' \<le> 0)"
proof -
  let ?s = "env_at (ship_at 20 20 0 1) [ship_at 20 27.5 0 1] 90 90"
  have c: "lists_cover_targets ?s" by (rule env_at_covered)
  have e: "ED (eta_N (OS ?s)) (eta_E (OS ?s)) (eta_N (ship_at 20 27.5 0 1))
             (eta_E (ship_at 20 27.5 0 1)) False = (safety_dist ?s)\<^sup>2"
    by (simp add: env_at_fields ship_at_pose ED_def Let_def power2_eq_square)
  from r_coll_sum_nonpos [of ?s demo_ship 1 1 1 1 1] c
  obtain s' where s': "calculate_reward demo_ship ?s 1 1 1 1 1 = Inr s'"
    "r_coll s' = (\<Sum>ts\<leftarrow>TSs ?s. spec_coll_term ?s ts)" "r_coll s' \<le> 0"
    "\<forall>ts. ED (eta_N (OS ?s)) (eta_E (OS ?s)) (eta_N ts) (eta_E ts) False = (safety_dist ?s)\<^sup>2
         \<longrightarrow> spec_coll_term ?s ts = - exp (- 0.5 * (safety_dist ?s)\<^sup>2 / (r_coll_sigma ?s)\<^sup>2)"
    by blast
  from s'(4) e have "spec_coll_term ?s (ship_at 20 27.5 0 1)
      = - exp (- 0.5 * (safety_dist ?s)\<^sup>2 / (r_coll_sigma ?s)\<^sup>2)"
    by blast
  also have "\<dots> = - exp (- (9 / 8))"
    by (simp add: env_at_fields power2_eq_square)
  finally have "r_coll s' = - exp (- (9 / 8))"
    using s'(2) by (simp add: env_at_fields)
  with c s'(1) s'(3) show ?thesis by blast
qed


lemma turn_bng: "bng_rel 20 20 40 20 (dtr 350) = dtr 10"
proof -
  have "bng_rel 20 20 40 20 (dtr 350) = angle_to_2pi (dtr (- 350))"
    by (simp add: bng_rel_def bng_abs_north dtr_def)
  also have "\<dots> = dtr 10" by (simp add: angle_to_2pi_dtr_neg)
  finally show ?thesis .
qed

lemma turn_C_T: "head_inter (dtr 350) pi = dtr 190"
proof -
  have "pi - dtr 350 = dtr (- 170)" by (simp add: dtr_def field_simps)
  then have "head_inter (dtr 350) pi = angle_to_2pi (dtr (- 170))"
    by (simp add: head_inter_def)
  also have "\<dots> = dtr 190" by (simp add: angle_to_2pi_dtr_neg)
  finally show ?thesis .
qed

lemma turn_class:
  "get_COLREG_situation demo_ship (ship_at 20 20 (dtr 350) 1) (ship_at 40 20 pi 1) None = 2"
proof -
  have "\<not> cond_head_on (dtr 10) (dtr 190)" by (simp add: cond_head_on_deg)
  moreover have "cond_starboard (dtr 10) (dtr 190)" by (simp add: cond_starboard_deg)
  ultimately show ?thesis
    by (simp add: get_COLREG_situation_def Let_def ship_at_pose turn_bng turn_C_T)
qed

text \<open>
  The claim C7 as stated does not hold: a target whose class changes from head-on (1) to
  starboard crossing (2) has not left the set of head-on, starboard crossing and
  portside crossing, and is penalised all the same. The own ship at (20, 20) has turned
  to a heading of 350 degrees; the target dead north of it, heading south and classified
  head-on the tick before, is now a starboard crossing at a relative bearing of 10
  degrees, and the rule-compliance reward is -10.
\<close>

theorem penalty_within_set:
  "TS_COLREGs_old (set_COLREGs demo_ship
      ((env_at (ship_at 20 20 (dtr 350) 1) [ship_at 40 20 pi 1] 90 90)\<lparr>TS_COLREGs := [1]\<rparr>)) = [1] \<and>
   TS_COLREGs (set_COLREGs demo_ship
      ((env_at (ship_at 20 20 (dtr 350) 1) [ship_at 40 20 pi 1] 90 90)\<lparr>TS_COLREGs := [1]\<rparr>)) = [2] \<and>
   map_sum id r_COLREG (calculate_reward demo_ship (set_COLREGs demo_ship
      ((env_at (ship_at 20 20 (dtr 350) 1) [ship_at 40 20 pi 1] 90 90)\<lparr>TS_COLREGs := [1]\<rparr>))
      1 1 1 1 1) = Inr (- 10)"
proof -
  let ?s0 = "(env_at (ship_at 20 20 (dtr 350) 1) [ship_at 40 20 pi 1] 90 90)\<lparr>TS_COLREGs := [1]\<rparr>"
  let ?s1 = "set_COLREGs demo_ship ?s0"
  have old: "TS_COLREGs_old ?s1 = [1]" by (simp add: set_COLREGs_def Let_def)
  have new: "TS_COLREGs ?s1 = [2]"
    by (simp add: set_COLREGs_map env_at_fields turn_class)
  have rest: "respawn_flags ?s1 = [False]" "TSs ?s1 = [ship_at 40 20 pi 1]"
    "OS ?s1 = ship_at 20 20 (dtr 350) 1"
    by (simp_all add: set_COLREGs_def Let_def env_at_fields)
  have pen: "spec_penalized ?s1 0 (ship_at 40 20 pi 1)"
    unfolding spec_penalized_def old new rest ship_at_pose turn_bng
    by (simp add: dtr_def)
  have cov: "lists_cover_targets ?s1"
    unfolding lists_cover_targets_def old new rest by simp
  have "(\<Sum>(i, ts)\<leftarrow>enumerate 0 (TSs ?s1). if spec_penalized ?s1 i ts then 10 else 0) = (10::real)"
    unfolding rest(2) using pen by (simp add: enumerate_simps)
  then have "map_sum id r_COLREG (calculate_reward demo_ship ?s1 1 1 1 1 1) = Inr (- 10)"
    unfolding calculate_reward_total [OF cov] by simp
  with old new show ?thesis by blast
qed

text \<open>
  C7 (amended): in every state whose index lists cover the targets, the rule-compliance
  reward is -10 times the number of targets that are not flagged as just respawned,
  whose class this tick differs from the class of the previous tick, that previous class
  being head-on, starboard crossing or portside crossing (the new class may itself be one
  of the three), and whose relative bearing from the own ship lies in [0, 180] degrees;
  no other target contributes.
\<close>

theorem r_COLREG_sum:
  "lists_cover_targets s \<longrightarrow>
   (\<exists>s'. calculate_reward X s w_dist w_head w_coll w_COLREG w_map = Inr s' \<and>
      r_COLREG s' =
        - (\<Sum>(i, ts)\<leftarrow>enumerate 0 (TSs s). if spec_penalized s i ts then 10 else 0))"
proof
  assume a: "lists_cover_targets s"
  show "\<exists>s'. calculate_reward X s w_dist w_head w_coll w_COLREG w_map = Inr s' \<and>
      r_COLREG s' =
        - (\<Sum>(i, ts)\<leftarrow>enumerate 0 (TSs s). if spec_penalized s i ts then 10 else 0)"
    by (simp add: calculate_reward_total [OF a])
qed

lemma ahead_bng: "bng_rel 20 20 40 20 0 = 0"
  by (simp add: bng_rel_def bng_abs_north angle_to_2pi_0)

theorem r_COLREG_sum_witness:
  "lists_cover_targets
     ((env_at (ship_at 20 20 0 1) [ship_at 40 20 pi 1, ship_at 60 60 0 1] 90 90)
        \<lparr>TS_COLREGs := [0, 2], TS_COLREGs_old := [1, 1], respawn_flags := [False, True]\<rparr>) \<and>
   (\<exists>s'. calculate_reward demo_ship
       ((env_at (ship_at 20 20 0 1) [ship_at 40 20 pi 1, ship_at 60 60 0 1] 90 90)
        \<lparr>TS_COLREGs := [0, 2], TS_COLREGs_old := [1, 1], respawn_flags := [False, True]\<rparr>)
       1 1 1 1 1 = Inr s' \<and> r_COLREG s' = - 10)"
proof -
  let ?s = "(env_at (ship_at 20 20 0 1) [ship_at 40 20 pi 1, ship_at 60 60 0 1] 90 90)
        \<lparr>TS_COLREGs := [0, 2], TS_COLREGs_old := [1, 1], respawn_flags := [False, True]\<rparr>"
  have c: "lists_cover_targets ?s"
    by (simp add: lists_cover_targets_def env_at_fields)
  have p0: "spec_penalized ?s 0 (ship_at 40 20 pi 1)"
    by (simp add: spec_penalized_def env_at_fields ship_at_pose ahead_bng dtr_def)
  have p1: "\<not> spec_penalized ?s 1 (ship_at 60 60 0 1)"
    by (simp add: spec_penalized_def)
  have sum: "(\<Sum>(i, ts)\<leftarrow>enumerate 0 (TSs ?s). if spec_penalized ?s i ts then 10 else 0) = (10::real)"
    using p0 p1 by (simp add: env_at_fields enumerate_simps)
  from r_COLREG_sum [of ?s demo_ship 1 1 1 1 1] c sum show ?thesis by auto
qed

subsection \<open>Spawning a target ship\<close>

lemma init_TS_eq:
  "init_TS X s g = (spec_random_target X s g, g\<lparr>np_random := sdrop 4 (np_random g)\<rparr>)"
  by (simp add: init_TS_def uniform_def Let_def CyberShipII_def spec_random_target_def
      eval_nat_numeral)

lemma get_TS_tau:
  assumes "cnt_approach s = ''tau''" "spawn_mode = ''line'' \<or> spawn_mode = ''front''"
  shows "get_TS X s spawn_mode g =
    (let (ts, g4) = init_TS X s g;
         ts1 = ts\<lparr>nu_u := u_from_tau_u X ts (tau_u ts)\<rparr>;
         g5 = g4\<lparr>py_random := stl (py_random g4)\<rparr>
     in if spawn_mode = ''front'' then spawn_front X s ts1 2 g5
        else spawn_line X s ts1 2 g5)"
  using assms by (auto simp: get_TS_def random_choice_def Let_def split: prod.splits)

lemma init_TS_py:
  "init_TS X s (g\<lparr>py_random := p\<rparr>) =
     (fst (init_TS X s g), (snd (init_TS X s g))\<lparr>py_random := p\<rparr>)"
  by (simp add: init_TS_eq spec_random_target_def)

lemma spawn_line_2:
  "spawn_line X s ts 2 g =
     (let bng_abs_goal = bng_abs (eta_N (OS s)) (eta_E (OS s)) (goal_N s) (goal_E s);
          t_hit = TCPA_crit s / 2 + (TCPA_crit s - TCPA_crit s / 2) * (np_random g !! 0);
          head_TS_s = angle_to_2pi (dtr (185 + (292.5 - 185) * (np_random g !! 1)) + bng_abs_goal)
      in Inr (ts\<lparr>eta_N := fst (line_hit_point X s t_hit) - nu_u ts * cos head_TS_s * t_hit,
                 eta_E := snd (line_hit_point X s t_hit) - nu_u ts * sin head_TS_s * t_hit,
                 eta_psi := head_TS_s\<rparr>,
              g\<lparr>np_random := sdrop 2 (np_random g)\<rparr>))"
  by (simp add: spawn_line_def line_sample_def uniform_def Let_def eval_nat_numeral
      split: prod.splits)



lemma env_at_config:
  "cnt_approach (env_at os tss gN gE) = ''tau''" "N_max (env_at os tss gN gE) = 100"
  "E_max (env_at os tss gN gE) = 100" "TCPA_crit (env_at os tss gN gE) = 60"
  "goal_N (env_at os tss gN gE) = gN" "goal_E (env_at os tss gN gE) = gE"
  "goal_reach_dist (env_at os tss gN gE) = 25" "max_episode_steps (env_at os tss gN gE) = 1000"
  "step_cnt (env_at os tss gN gE) = 0" "N_TSs (env_at os tss gN gE) = length tss"
  by (simp_all add: env_at_def)

text \<open>
  C10: when the control approach is not \<^verbatim>\<open>tau\<close>, \<^verbatim>\<open>_get_TS\<close> (called with one of
  its two spawn modes) returns the vessel it constructs first: position, heading and
  thrust are four uniform draws, the vessel is at rest (no converged speed is set),
  Python's generator is untouched (no encounter situation is sampled), and numpy's
  generator has given exactly the four samples (no hit time, no angles).
\<close>

theorem get_TS_not_tau:
  "cnt_approach s \<noteq> ''tau'' \<and> (spawn_mode = ''line'' \<or> spawn_mode = ''front'') \<longrightarrow>
   get_TS X s spawn_mode g =
     Inr (spec_random_target X s g, g\<lparr>np_random := sdrop 4 (np_random g)\<rparr>) \<and>
   py_random (g\<lparr>np_random := sdrop 4 (np_random g)\<rparr>) = py_random g \<and>
   nu_u (spec_random_target X s g) = 0"
  by (auto simp: get_TS_def init_TS_eq spec_random_target_def)



theorem get_TS_not_tau_witness:
  "cnt_approach ((env_at (ship_at 20 20 0 1) [] 90 90)\<lparr>cnt_approach := ''rps_angle''\<rparr>) \<noteq> ''tau'' \<and>
   get_TS demo_ship ((env_at (ship_at 20 20 0 1) [] 90 90)\<lparr>cnt_approach := ''rps_angle''\<rparr>)
       ''line'' (demo_rng (1 / 2) 4)
     = Inr (\<lparr>eta_N = 60, eta_E = 60, eta_psi = pi, nu_u = 0, nu_v = 0, nu_r = 0, tau_u = 5 / 2,
             length_v = 1.255, N_max_v = 100, E_max_v = 100\<rparr>, demo_rng (1 / 2) 4)"
proof -
  let ?s = "(env_at (ship_at 20 20 0 1) [] 90 90)\<lparr>cnt_approach := ''rps_angle''\<rparr>"
  have t: "cnt_approach ?s \<noteq> ''tau''" by simp
  from get_TS_not_tau [of ?s "''line''" demo_ship "demo_rng (1 / 2) 4"] t
  have "get_TS demo_ship ?s ''line'' (demo_rng (1 / 2) 4) =
     Inr (spec_random_target demo_ship ?s (demo_rng (1 / 2) 4),
          (demo_rng (1 / 2) 4)\<lparr>np_random := sdrop 4 (np_random (demo_rng (1 / 2) 4))\<rparr>)"
    by blast
  moreover have "spec_random_target demo_ship ?s (demo_rng (1 / 2) 4) =
     \<lparr>eta_N = 60, eta_E = 60, eta_psi = pi, nu_u = 0, nu_v = 0, nu_r = 0, tau_u = 5 / 2,
             length_v = 1.255, N_max_v = 100, E_max_v = 100\<rparr>"
    by (simp add: spec_random_target_def demo_rng_def env_at_def demo_ship_def)
  moreover have "(demo_rng (1 / 2) 4)\<lparr>np_random := sdrop 4 (np_random (demo_rng (1 / 2) 4))\<rparr>
      = demo_rng (1 / 2) 4"
    by (simp add: demo_rng_def)
  ultimately show ?thesis using t by simp
qed





subsection \<open>The hit point of the line mode\<close>

lemma sin_135: "sin (3 * pi / 4) = sqrt 2 / 2"
proof -
  have "sin (3 * pi / 4) = sin (pi - pi / 4)" by (simp add: field_simps)
  also have "\<dots> = sin (pi / 4)" by (rule sin_pi_minus)
  finally show ?thesis by (simp add: sin_45)
qed

lemma cos_135: "cos (3 * pi / 4) = - (sqrt 2 / 2)"
proof -
  have "cos (3 * pi / 4) = cos (pi - pi / 4)" by (simp add: field_simps)
  also have "\<dots> = - cos (pi / 4)" by (rule cos_pi_minus)
  finally show ?thesis by (simp add: cos_45)
qed

lemma bng_abs_south_east: "bng_abs 95 55 75 75 = 3 * pi / 4"
proof -
  have "arctan (- 1) = - (pi / 4)" by (simp add: arctan_minus arctan_one)
  then show ?thesis by (simp add: bng_abs_def Let_def)
qed

lemma hit_south_east:
  "line_hit_point demo_ship (env_at (ship_at 95 55 (3 * pi / 4) 1) [] 75 75) 30
     = (95 + 15 * sqrt 2, 55 + 15 * sqrt 2)"
proof -
  have "(sqrt 2 / 2) * (sqrt 2 / 2) = (1::real) / 2" by simp
  then have v: "sqrt 2 * sqrt 2 / 4 + sqrt 2 * sqrt 2 / 4 = (1::real)" by simp
  show ?thesis
    unfolding line_hit_point_def Let_def env_at_fields env_at_config ship_at_pose
      demo_V demo_course bng_abs_south_east sin_135 cos_135
    by (simp add: v)
qed

text \<open>
  C9 describes the hit point of the line mode as a point of the ray from the own ship
  towards the goal. The source takes the absolute value of each component of the
  projected velocity, so the hit point always lies to the north-east of the own ship. For
  an own ship at (N, E) = (95, 55) that moves at 1 m/s on the course of 135 degrees
  straight towards the goal at (75, 75), and \<^verbatim>\<open>t_hit = 30\<close>, the hit point is
  (95 + 15 sqrt 2, 55 + 15 sqrt 2): north of the own ship, while every point of the ray
  towards the goal lies south of it.
\<close>

theorem line_hit_point_off_path:
  "bng_abs 95 55 75 75 = 3 * pi / 4 \<and>
   line_hit_point demo_ship (env_at (ship_at 95 55 (3 * pi / 4) 1) [] 75 75) 30
     = (95 + 15 * sqrt 2, 55 + 15 * sqrt 2) \<and>
   \<not> on_ray 95 55 (3 * pi / 4)
       (line_hit_point demo_ship (env_at (ship_at 95 55 (3 * pi / 4) 1) [] 75 75) 30)"
proof -
  have "\<not> on_ray 95 55 (3 * pi / 4) (95 + 15 * sqrt 2, 55 + 15 * sqrt 2)"
  proof
    assume "on_ray 95 55 (3 * pi / 4) (95 + 15 * sqrt 2, 55 + 15 * sqrt 2)"
    then obtain d where d: "0 \<le> d" "95 + 15 * sqrt 2 = 95 + d * cos (3 * pi / 4)"
      unfolding on_ray_def by auto
    from d(2) have "15 * sqrt 2 = - (d * (sqrt 2 / 2))" by (simp add: cos_135)
    moreover have "0 \<le> d * (sqrt 2 / 2)" using d(1) by simp
    moreover have "0 < 15 * sqrt 2" by simp
    ultimately show False by linarith
  qed
  then show ?thesis by (simp add: bng_abs_south_east hit_south_east)
qed


text \<open>Where the goal lies to the north-east of the own ship (the sine and the cosine of
  the bearing are not negative) the hit point is on the ray, at the distance of the
  absolute projected speed times \<^verbatim>\<open>t_hit\<close>.\<close>

lemma line_hit_point_north_east:
  assumes b: "b = bng_abs (eta_N (OS s)) (eta_E (OS s)) (goal_N s) (goal_E s)"
    and q: "0 \<le> sin b" "0 \<le> cos b" and t: "0 \<le> t_hit"
  shows "on_ray (eta_N (OS s)) (eta_E (OS s)) b (line_hit_point X s t_hit)"
proof -
  define vR where "vR = get_V X (OS s) * sin (get_course X (OS s)) * sin b
                      + get_V X (OS s) * cos (get_course X (OS s)) * cos b"
  have h: "line_hit_point X s t_hit =
      (eta_N (OS s) + \<bar>vR * cos b\<bar> * t_hit, eta_E (OS s) + \<bar>vR * sin b\<bar> * t_hit)"
    by (simp add: line_hit_point_def Let_def b [symmetric] vR_def)
  have "\<bar>vR * cos b\<bar> = \<bar>vR\<bar> * cos b" "\<bar>vR * sin b\<bar> = \<bar>vR\<bar> * sin b"
    using q by (simp_all add: abs_mult)
  then have "fst (line_hit_point X s t_hit) = eta_N (OS s) + (\<bar>vR\<bar> * t_hit) * cos b"
    "snd (line_hit_point X s t_hit) = eta_E (OS s) + (\<bar>vR\<bar> * t_hit) * sin b"
    by (simp_all add: h)
  moreover have "0 \<le> \<bar>vR\<bar> * t_hit" using t by simp
  ultimately show ?thesis unfolding on_ray_def by blast
qed


subsection \<open>One tick\<close>

lemma get_TS_line_returns:
  "\<exists>ts g'. get_TS X s ''line'' g = Inr (ts, g')"
proof (cases "cnt_approach s = ''tau''")
  case True
  then show ?thesis
    by (simp add: get_TS_tau init_TS_eq spawn_line_2 Let_def)
next
  case False
  then show ?thesis by (simp add: get_TS_def init_TS_eq)
qed

lemma handle_map_leaving_returns:
  "\<exists>p g'. handle_map_leaving X s cs respawn mirrow clip_flag g = Inr (p, g')"
  using get_TS_line_returns [of X s g]
  by (auto simp: handle_map_leaving_def Let_def)

lemma handle_respawn_returns:
  "\<exists>p g'. handle_respawn X s ts g = Inr (p, g')"
  using get_TS_line_returns [of X s g]
  by (auto simp: handle_respawn_def Let_def)

lemma map_leaving_pass_returns:
  "\<exists>ps g'. map_leaving_pass X s tss g = Inr (ps, g') \<and> length ps = length tss"
proof (induction tss arbitrary: g)
  case Nil
  then show ?case by simp
next
  case (Cons ts tss)
  obtain p g1 where 1: "handle_map_leaving X s ts True False False g = Inr (p, g1)"
    using handle_map_leaving_returns by blast
  obtain ps g2 where 2: "map_leaving_pass X s tss g1 = Inr (ps, g2)" "length ps = length tss"
    using Cons.IH by blast
  from 1 2 show ?case by simp
qed

lemma respawn_pass_returns:
  "\<exists>ps g'. respawn_pass X s tss g = Inr (ps, g') \<and> length ps = length tss"
proof (induction tss arbitrary: g)
  case Nil
  then show ?case by simp
next
  case (Cons ts tss)
  obtain p g1 where 1: "handle_respawn X s ts g = Inr (p, g1)"
    using handle_respawn_returns by blast
  obtain ps g2 where 2: "respawn_pass X s tss g1 = Inr (ps, g2)" "length ps = length tss"
    using Cons.IH by blast
  from 1 2 show ?case by simp
qed

lemma respawn_phase_frame:
  assumes "respawn_phase X s g = Inr (s', g')"
  shows "OS s' = OS s \<and> goal_N s' = goal_N s \<and> goal_E s' = goal_E s \<and>
         goal_reach_dist s' = goal_reach_dist s \<and> max_episode_steps s' = max_episode_steps s \<and>
         step_cnt s' = step_cnt s \<and> TS_COLREGs s' = TS_COLREGs s"
  using assms
  by (auto simp: respawn_phase_def unzip_pairs_def Let_def split: if_splits sum.splits prod.splits)

lemma respawn_phase_returns:
  assumes "N_TSs s = length (TSs s)"
  shows "\<exists>s' g'. respawn_phase X s g = Inr (s', g') \<and>
           length (TSs s') = length (TSs s) \<and>
           (TSs s \<noteq> [] \<longrightarrow> length (respawn_flags s') = length (TSs s))"
proof (cases "TSs s = []")
  case True
  with assms show ?thesis by (simp add: respawn_phase_def)
next
  case False
  then have n: "0 < N_TSs s" using assms by simp
  obtain ps g1 where 1: "map_leaving_pass X s (TSs s) g = Inr (ps, g1)"
    "length ps = length (TSs s)"
    using map_leaving_pass_returns by blast
  let ?s1 = "s\<lparr>TSs := map fst ps, respawn_flags := map snd ps\<rparr>"
  obtain qs g2 where 2: "respawn_pass X ?s1 (map fst ps) g1 = Inr (qs, g2)"
    "length qs = length (map fst ps)"
    using respawn_pass_returns by blast
  have ne: "ps \<noteq> []" "qs \<noteq> []" using 1(2) 2(2) False by auto
  show ?thesis
    using n 1 2 ne by (simp add: respawn_phase_def unzip_pairs_def Let_def)
qed

lemma OS_clip_step:
  "handle_map_leaving X s cs False False True g =
     Inr ((if is_off_map X cs
           then cs\<lparr>eta_N := clip (eta_N cs) 0 (N_max_v cs), eta_E := clip (eta_E cs) 0 (E_max_v cs)\<rparr>
           else cs, False), g)"
  by (simp add: handle_map_leaving_def)

lemma set_COLREGs_frame:
  "OS (set_COLREGs X s) = OS s \<and> goal_N (set_COLREGs X s) = goal_N s \<and>
   goal_E (set_COLREGs X s) = goal_E s \<and>
   goal_reach_dist (set_COLREGs X s) = goal_reach_dist s \<and>
   max_episode_steps (set_COLREGs X s) = max_episode_steps s \<and>
   step_cnt (set_COLREGs X s) = step_cnt s \<and> TSs (set_COLREGs X s) = TSs s \<and>
   respawn_flags (set_COLREGs X s) = respawn_flags s \<and>
   TS_COLREGs_old (set_COLREGs X s) = TS_COLREGs s \<and>
   length (TS_COLREGs (set_COLREGs X s)) = length (TSs s)"
  by (simp add: set_COLREGs_def Let_def COLREGs_loop_map)

lemma calculate_reward_frame:
  assumes "calculate_reward X s w1 w2 w3 w4 w5 = Inr s'"
  shows "OS s' = OS s \<and> goal_N s' = goal_N s \<and> goal_E s' = goal_E s \<and>
         goal_reach_dist s' = goal_reach_dist s \<and> max_episode_steps s' = max_episode_steps s \<and>
         step_cnt s' = step_cnt s"
  using assms by (auto simp: calculate_reward_def Let_def split: sum.splits)

lemma done_env_iff:
  "done_env s \<longleftrightarrow>
     ED (eta_N (OS s)) (eta_E (OS s)) (goal_N s) (goal_E s) True \<le> goal_reach_dist s \<or>
     max_episode_steps s \<le> real (step_cnt s)"
  by (simp add: done_env_def Let_def)

lemma step_eq:
  "step X s a g =
     (case respawn_phase X (s\<lparr>OS := OS_after X s a, TSs := map (upd_dynamics X) (TSs s)\<rparr>) g of
        Inl e \<Rightarrow> Inl e
      | Inr (s4, g2) \<Rightarrow>
          (case calculate_reward X (set_COLREGs X s4) 1 1 1 1 1 of
             Inl e \<Rightarrow> Inl e
           | Inr s6 \<Rightarrow>
               Inr ((r s6, done_env s6),
                    s6\<lparr>step_cnt := step_cnt s6 + 1, sim_t := sim_t s6 + delta_t s6\<rparr>, g2)))"
  by (simp add: step_def Let_def OS_clip_step OS_after_def split: sum.splits prod.splits)

lemma step_done_partial:
  assumes "step X s a g = Inr ((rew, d), s', g')"
  shows "OS s' = OS_after X s a \<and> step_cnt s' = step_cnt s + 1 \<and>
     (d \<longleftrightarrow> ED (eta_N (OS_after X s a)) (eta_E (OS_after X s a)) (goal_N s) (goal_E s) True
              \<le> goal_reach_dist s \<or>
            max_episode_steps s \<le> real (step_cnt s))"
proof -
  let ?s3 = "s\<lparr>OS := OS_after X s a, TSs := map (upd_dynamics X) (TSs s)\<rparr>"
  from assms obtain s4 g2 where p: "respawn_phase X ?s3 g = Inr (s4, g2)"
    unfolding step_eq by (auto split: sum.splits)
  from assms p obtain s6 where c: "calculate_reward X (set_COLREGs X s4) 1 1 1 1 1 = Inr s6"
    unfolding step_eq by (auto split: sum.splits)
  from assms p c have r: "d = done_env s6"
    "s' = s6\<lparr>step_cnt := step_cnt s6 + 1, sim_t := sim_t s6 + delta_t s6\<rparr>"
    unfolding step_eq by simp_all
  from respawn_phase_frame [OF p] set_COLREGs_frame [of X s4] calculate_reward_frame [OF c]
  have f: "OS s6 = OS_after X s a" "goal_N s6 = goal_N s" "goal_E s6 = goal_E s"
    "goal_reach_dist s6 = goal_reach_dist s" "max_episode_steps s6 = max_episode_steps s"
    "step_cnt s6 = step_cnt s"
    by simp_all
  show ?thesis unfolding r done_env_iff by (simp add: f)
qed

lemma step_returns:
  assumes n: "N_TSs s = length (TSs s)" and l: "length (TSs s) \<le> length (TS_COLREGs s)"
  shows "\<exists>rew d s' g'. step X s a g = Inr ((rew, d), s', g')"
proof -
  let ?s3 = "s\<lparr>OS := OS_after X s a, TSs := map (upd_dynamics X) (TSs s)\<rparr>"
  have "N_TSs ?s3 = length (TSs ?s3)" using n by simp
  from respawn_phase_returns [OF this, of X g]
  obtain s4 g2 where p: "respawn_phase X ?s3 g = Inr (s4, g2)"
    "length (TSs s4) = length (TSs ?s3)"
    "TSs ?s3 \<noteq> [] \<longrightarrow> length (respawn_flags s4) = length (TSs ?s3)"
    by blast
  have "TS_COLREGs s4 = TS_COLREGs s"
    using respawn_phase_frame [OF p(1)] by simp
  then have "lists_cover_targets (set_COLREGs X s4)"
    unfolding lists_cover_targets_def using p(2,3) l set_COLREGs_frame [of X s4]
    by (cases "TSs s = []") simp_all
  from calculate_reward_total [OF this, of X 1 1 1 1 1]
  obtain s6 where c: "calculate_reward X (set_COLREGs X s4) 1 1 1 1 1 = Inr s6" by blast
  show ?thesis unfolding step_eq by (simp add: p(1) c)
qed

lemma ED_same_E: "ED n0 e n1 e True = \<bar>n0 - n1\<bar>"
  by (simp add: ED_def Let_def)

lemma demo_OS_after:
  "OS_after demo_ship (env_at (ship_at 75 90 0 1) [ship_at 40 20 pi 1] 90 90) 0 = ship_at (151 / 2) 90 0 1"
  by (simp add: OS_after_def demo_ship_def env_at_def ship_at_def Let_def)

text \<open>
  C5: from a state that holds \<^verbatim>\<open>N_TSs\<close> targets and a class for each of them,
  \<^verbatim>\<open>step\<close> returns, and the flag it returns is True if and only if the Euclidean
  distance from the own ship, as the control action, the dynamics update and the clipping
  of this tick leave it, to the goal is at most \<^verbatim>\<open>goal_reach_dist\<close>, or the step
  counter has reached the maximum number of episode steps. The counter is read before
  this tick increments it. So the flag is True at the first tick at which the goal
  condition holds.
\<close>

theorem step_done_iff:
  "N_TSs s = length (TSs s) \<and> length (TSs s) \<le> length (TS_COLREGs s) \<longrightarrow>
   (\<exists>rew d s' g'. step X s a g = Inr ((rew, d), s', g') \<and>
      OS s' = OS_after X s a \<and> step_cnt s' = step_cnt s + 1 \<and>
      (d \<longleftrightarrow> ED (eta_N (OS_after X s a)) (eta_E (OS_after X s a)) (goal_N s) (goal_E s) True
               \<le> goal_reach_dist s \<or>
             max_episode_steps s \<le> real (step_cnt s)))"
proof (intro impI, elim conjE)
  assume n: "N_TSs s = length (TSs s)" and l: "length (TSs s) \<le> length (TS_COLREGs s)"
  from step_returns [OF n l, of X a g]
  obtain rew d s' g' where st: "step X s a g = Inr ((rew, d), s', g')" by blast
  from step_done_partial [OF st] st
  show "\<exists>rew d s' g'. step X s a g = Inr ((rew, d), s', g') \<and>
      OS s' = OS_after X s a \<and> step_cnt s' = step_cnt s + 1 \<and>
      (d \<longleftrightarrow> ED (eta_N (OS_after X s a)) (eta_E (OS_after X s a)) (goal_N s) (goal_E s) True
               \<le> goal_reach_dist s \<or>
             max_episode_steps s \<le> real (step_cnt s))"
    by blast
qed


theorem step_done_iff_witness:
  "N_TSs (env_at (ship_at 75 90 0 1) [ship_at 40 20 pi 1] 90 90) = length (TSs (env_at (ship_at 75 90 0 1) [ship_at 40 20 pi 1] 90 90)) \<and>
   length (TSs (env_at (ship_at 75 90 0 1) [ship_at 40 20 pi 1] 90 90))
     \<le> length (TS_COLREGs (env_at (ship_at 75 90 0 1) [ship_at 40 20 pi 1] 90 90)) \<and>
   (\<exists>rew s' g'. step demo_ship (env_at (ship_at 75 90 0 1) [ship_at 40 20 pi 1] 90 90) 0 (demo_rng 0 0)
        = Inr ((rew, True), s', g') \<and> step_cnt s' = 1)"
proof -
  let ?s = "env_at (ship_at 75 90 0 1) [ship_at 40 20 pi 1] 90 90"
  have n: "N_TSs ?s = length (TSs ?s)" "length (TSs ?s) \<le> length (TS_COLREGs ?s)"
    by (simp_all add: env_at_config env_at_fields)
  from step_done_iff [of ?s demo_ship 0 "demo_rng 0 0"] n
  obtain rew d s' g' where st: "step demo_ship ?s 0 (demo_rng 0 0) = Inr ((rew, d), s', g')"
    "step_cnt s' = step_cnt ?s + 1"
    "d \<longleftrightarrow> ED (eta_N (OS_after demo_ship ?s 0)) (eta_E (OS_after demo_ship ?s 0))
               (goal_N ?s) (goal_E ?s) True \<le> goal_reach_dist ?s \<or>
             max_episode_steps ?s \<le> real (step_cnt ?s)"
    by blast
  have "ED (eta_N (OS_after demo_ship ?s 0)) (eta_E (OS_after demo_ship ?s 0))
               (goal_N ?s) (goal_E ?s) True \<le> goal_reach_dist ?s"
    unfolding demo_OS_after ship_at_pose env_at_config ED_same_E by simp
  with st(3) have d by blast
  with st(1,2) n show ?thesis by (simp add: env_at_config)
qed


end
